theory Spec2Isabelle
  imports Complex_Main "HOL-Library.AList"
begin

section \<open>Scope of the model\<close>

text \<open>
  The theory embeds the class \<open>Peng3D\<close> (the 3D scene and physics extension): its
  registries, its transform setters, the physics step, the forward ray query and the
  scene serializer.

  \<^item> Numbers are JavaScript doubles in the source and \<open>real\<close> here; rounding, infinities
    and NaN are outside the model.
  \<^item> The registries are plain JavaScript objects used as dictionaries. They are association
    lists in insertion order here, read with \<open>map_of\<close>; names that are inherited members of
    every JavaScript object (\<open>constructor\<close>, \<open>toString\<close>, \<open>__proto__\<close>, ...) are outside
    the model, as is the numeric-key reordering of \<open>for ... in\<close>.
  \<^item> Every operation starts with \<open>if (!this.loaded) return this._check().then(...)\<close>. The
    model describes the operations once the two libraries are loaded and \<open>_ensureInit\<close>
    has run; the deferral through the promise is not modelled.
  \<^item> The rasterizer (three.js) and the rigid-body solver (cannon.js) are not part of the
    repository. What the extension calls in them and cannot be written down from the
    extension's own text (Euler/quaternion conversion, rotating a vector, look-at,
    the solver step, impulses, ray intersection) is a field of the record \<open>engine\<close>, and
    every theorem holds for every engine.
  \<^item> Attributes that only the renderer reads (shadow flags, textures, the canvas and the
    sprite hand-off) are left out.
\<close>

section \<open>Data model\<close>

record vec3 =
  vx :: real
  vy :: real
  vz :: real

record quat =
  qx :: real
  qy :: real
  qz :: real
  qw :: real

datatype euler_order = XYZ | YXZ

record euler =
  ex :: real
  ey :: real
  ez :: real
  eorder :: euler_order

definition vec :: "real \<Rightarrow> real \<Rightarrow> real \<Rightarrow> vec3" where
  "vec x y z = \<lparr>vx = x, vy = y, vz = z\<rparr>"

definition vadd :: "vec3 \<Rightarrow> vec3 \<Rightarrow> vec3" where
  "vadd a b = vec (vx a + vx b) (vy a + vy b) (vz a + vz b)"




definition quat_identity :: quat where
  "quat_identity = \<lparr>qx = 0, qy = 0, qz = 0, qw = 1\<rparr>"

text \<open>\<open>CANNON.Quaternion.setFromAxisAngle\<close>, used for the cylinder shape's orientation.\<close>

definition setFromAxisAngle :: "vec3 \<Rightarrow> real \<Rightarrow> quat" where
  "setFromAxisAngle axis angle =
     (let s = sin (angle / 2)
      in \<lparr>qx = vx axis * s, qy = vy axis * s, qz = vz axis * s, qw = cos (angle / 2)\<rparr>)"

subsection \<open>Scene objects\<close>

text \<open>
  A private material is a clone that carries its own colour; the shared default material
  is white. A node is a mesh over one of the shared geometries, a point light (colour,
  intensity, distance) or a perspective camera (field of view, far plane).
\<close>

datatype material = SharedDefault | PrivateClone nat

datatype node =
    Mesh string material
  | PointLight nat real real
  | PerspectiveCamera real real

datatype parent_ref = NoParent | SceneRoot | ChildOf nat

record obj =
  o_id :: nat
  o_name :: string
  o_type :: string
  o_node :: node
  o_position :: vec3
  o_rotation :: euler
  o_quaternion :: quat
  o_scale :: vec3
  o_parent :: parent_ref

definition isMesh :: "obj \<Rightarrow> bool" where
  "isMesh ob = (case o_node ob of Mesh g m \<Rightarrow> True | _ \<Rightarrow> False)"

definition isLight :: "obj \<Rightarrow> bool" where
  "isLight ob = (case o_node ob of PointLight c i d \<Rightarrow> True | _ \<Rightarrow> False)"

definition isCamera :: "obj \<Rightarrow> bool" where
  "isCamera ob = (case o_node ob of PerspectiveCamera f r \<Rightarrow> True | _ \<Rightarrow> False)"

subsection \<open>Physics bodies and the world\<close>

datatype body_type = DYNAMIC | STATIC

datatype phys_material = DefaultPhysMaterial | BodyMaterial nat

datatype shape =
    SphereShape real
  | CylinderShape real real real nat
  | BoxShape vec3

record body =
  b_id :: nat
  b_name :: string
  b_mass :: real
  b_type :: body_type
  b_material :: phys_material
  b_linearDamping :: real
  b_angularDamping :: real
  b_position :: vec3
  b_quaternion :: quat
  b_velocity :: vec3
  b_angularVelocity :: vec3
  b_shapes :: "(shape \<times> vec3 \<times> quat) list"
  b_awake :: bool

text \<open>
  The world lists the bodies it simulates by reference (a body id). The bodies themselves
  live in the store \<open>bodies\<close> of the extension's state, since the registry
  \<open>physicsBodies\<close> and the world share them.
\<close>

record world =
  w_gravity :: vec3
  w_bodies :: "nat list"
  w_contactMaterials :: "((phys_material \<times> phys_material) \<times> (real \<times> real)) list"
  w_contacts :: "(nat \<times> nat) list"
  w_time :: real

text \<open>\<open>World.addBody\<close> pushes the body; \<open>World.removeBody\<close> splices its first index out.\<close>

definition addBody :: "nat \<Rightarrow> world \<Rightarrow> world" where
  "addBody i w = w\<lparr>w_bodies := w_bodies w @ [i]\<rparr>"

definition removeBody :: "nat \<Rightarrow> world \<Rightarrow> world" where
  "removeBody i w = w\<lparr>w_bodies := remove1 i (w_bodies w)\<rparr>"

subsection \<open>The extension's state\<close>

record config =
  shadows :: nat
  renderDistance :: real

record physdata =
  pd_enabled :: bool
  pd_mass :: real
  pd_fixed :: bool
  pd_friction :: real
  pd_bounciness :: real

record peng3d =
  objects :: "(string \<times> obj) list"
  physicsBodies :: "(string \<times> nat) list"
  objectPhysData :: "(string \<times> physdata) list"
  bodyToName :: "(nat \<times> string) list"
  bodies :: "nat \<Rightarrow> body option"
  world :: world
  activeCamera :: "nat option"
  lastPhysTime :: real
  renderPending :: bool
  framesScheduled :: nat
  cfg :: config
  euler_tmp :: euler
  nextObjectId :: nat
  nextBodyId :: nat
  nextMaterialId :: nat

subsection \<open>The two libraries, as parameters\<close>

record ray =
  r_origin :: vec3
  r_direction :: vec3
  r_near :: real
  r_far :: real

record hit =
  h_distance :: real
  h_object :: obj

text \<open>
  \<^item> \<open>quatFromEuler\<close>: \<open>Quaternion.setFromEuler\<close>;
  \<^item> \<open>eulerFromQuat q ord\<close>: the angles \<open>Euler.setFromQuaternion(q, ord)\<close> stores;
  \<^item> \<open>applyQuaternion v q\<close>: \<open>Vector3.applyQuaternion\<close>;
  \<^item> \<open>lookAtQuat objs ob target\<close>: the quaternion \<open>Object3D.lookAt\<close> gives \<open>ob\<close>;
  \<^item> \<open>rotateYQuat q a\<close>: the quaternion after \<open>Object3D.rotateY(a)\<close>;
  \<^item> \<open>worldStep tick dt maxSub\<close>: \<open>World.step\<close>, on the world and the body store;
  \<^item> \<open>applyImpulse impulse point\<close>: \<open>Body.applyImpulse\<close>;
  \<^item> \<open>intersectObjects objs r targets\<close>: \<open>Raycaster.intersectObjects(targets, false)\<close>.
\<close>

record engine =
  quatFromEuler :: "euler \<Rightarrow> quat"
  eulerFromQuat :: "quat \<Rightarrow> euler_order \<Rightarrow> vec3"
  applyQuaternion :: "vec3 \<Rightarrow> quat \<Rightarrow> vec3"
  lookAtQuat :: "(string \<times> obj) list \<Rightarrow> obj \<Rightarrow> vec3 \<Rightarrow> quat"
  rotateYQuat :: "quat \<Rightarrow> real \<Rightarrow> quat"
  worldStep :: "real \<Rightarrow> real \<Rightarrow> nat \<Rightarrow> world \<Rightarrow> (nat \<Rightarrow> body option)
                 \<Rightarrow> world \<times> (nat \<Rightarrow> body option)"
  applyImpulse :: "vec3 \<Rightarrow> vec3 \<Rightarrow> body \<Rightarrow> body"
  intersectObjects :: "(string \<times> obj) list \<Rightarrow> ray \<Rightarrow> obj list \<Rightarrow> hit list"

section \<open>Construction and rendering\<close>

text \<open>The constructor's fields after \<open>_ensureInit\<close>: empty registries, gravity -9.8,
  the default contact material, the physics clock at 0.\<close>

definition initState :: peng3d where
  "initState =
     \<lparr>objects = [], physicsBodies = [], objectPhysData = [], bodyToName = [],
      bodies = (\<lambda>i. None),
      world = \<lparr>w_gravity = vec 0 (- 98 / 10) 0, w_bodies = [],
               w_contactMaterials =
                 [((DefaultPhysMaterial, DefaultPhysMaterial), (3 / 10, 1 / 10))],
               w_contacts = [], w_time = 0\<rparr>,
      activeCamera = None, lastPhysTime = 0, renderPending = False, framesScheduled = 0,
      cfg = \<lparr>shadows = 1, renderDistance = 100\<rparr>,
      euler_tmp = \<lparr>ex = 0, ey = 0, ez = 0, eorder = XYZ\<rparr>,
      nextObjectId = 0, nextBodyId = 0, nextMaterialId = 0\<rparr>"

text \<open>\<open>_requestRender\<close>: one frame is scheduled unless one is pending already.\<close>

definition requestRender :: "peng3d \<Rightarrow> peng3d" where
  "requestRender s =
     (if renderPending s then s
      else s\<lparr>renderPending := True, framesScheduled := Suc (framesScheduled s)\<rparr>)"

text \<open>The scheduled callback: \<open>_render\<close>, then the flag is cleared.\<close>

definition animationFrame :: "peng3d \<Rightarrow> peng3d" where
  "animationFrame s = s\<lparr>renderPending := False\<rparr>"

section \<open>Object management\<close>

text \<open>\<open>_disposeObject(obj, name)\<close>: nothing for a missing object; otherwise the body of
  that name (if any) leaves the world and the three physics registries, and the name
  leaves the object registry.\<close>

definition disposeObject :: "obj option \<Rightarrow> string \<Rightarrow> peng3d \<Rightarrow> peng3d" where
  "disposeObject ob name s =
     (case ob of
        None \<Rightarrow> s
      | Some old \<Rightarrow>
          (let s1 = (case map_of (physicsBodies s) name of
                       None \<Rightarrow> s
                     | Some i \<Rightarrow>
                         s\<lparr>world := removeBody i (world s),
                           bodyToName := AList.delete i (bodyToName s),
                           physicsBodies := AList.delete name (physicsBodies s),
                           objectPhysData := AList.delete name (objectPhysData s)\<rparr>)
           in s1\<lparr>objects := AList.delete name (objects s1)\<rparr>))"

definition sharedGeometryKeys :: "string list" where
  "sharedGeometryKeys = [''Cube'', ''Sphere'', ''Cone'', ''Cylinder'', ''Donut'']"

definition newNode :: "config \<Rightarrow> string \<Rightarrow> node" where
  "newNode c type =
     (if type \<in> set sharedGeometryKeys then Mesh type SharedDefault
      else if type = ''Light'' then PointLight 0xffffff 1 100
      else if type = ''Camera'' then PerspectiveCamera 75 (renderDistance c)
      else Mesh ''Cube'' SharedDefault)"

definition createObject :: "string \<Rightarrow> string \<Rightarrow> peng3d \<Rightarrow> peng3d" where
  "createObject type name s =
     (let s1 = (case map_of (objects s) name of
                  Some old \<Rightarrow> disposeObject (Some old) name s
                | None \<Rightarrow> s);
          ob = \<lparr>o_id = nextObjectId s1, o_name = name, o_type = type,
                o_node = newNode (cfg s1) type,
                o_position = vec 0 0 0,
                o_rotation = \<lparr>ex = 0, ey = 0, ez = 0, eorder = XYZ\<rparr>,
                o_quaternion = quat_identity,
                o_scale = vec 1 1 1,
                o_parent = SceneRoot\<rparr>
      in requestRender
           (s1\<lparr>objects := AList.update name ob (objects s1),
               nextObjectId := Suc (nextObjectId s1)\<rparr>))"

definition deleteObject :: "string \<Rightarrow> peng3d \<Rightarrow> peng3d" where
  "deleteObject name s = requestRender (disposeObject (map_of (objects s) name) name s)"

definition disposeByName :: "string \<Rightarrow> peng3d \<Rightarrow> peng3d" where
  "disposeByName name s = disposeObject (map_of (objects s) name) name s"

text \<open>\<open>deleteAllObjects\<close>: \<open>Object.keys(this.objects).forEach(...)\<close> walks the keys as they
  were when the call started; then the active camera and the physics clock are reset.\<close>

definition deleteAllObjects :: "peng3d \<Rightarrow> peng3d" where
  "deleteAllObjects s =
     requestRender
       ((fold disposeByName (map fst (objects s)) s)
          \<lparr>activeCamera := None, lastPhysTime := 0\<rparr>)"

section \<open>Transforms\<close>

text \<open>
  An \<open>Object3D\<close> keeps its Euler rotation and its quaternion in step: writing the
  rotation recomputes the quaternion (\<open>setFromEuler\<close>), writing the quaternion
  recomputes the rotation's angles (\<open>setFromQuaternion\<close>) in the rotation's own order.
\<close>

definition setRotationXYZ :: "engine \<Rightarrow> real \<Rightarrow> real \<Rightarrow> real \<Rightarrow> obj \<Rightarrow> obj" where
  "setRotationXYZ eng x y z ob =
     (let e = \<lparr>ex = x, ey = y, ez = z, eorder = eorder (o_rotation ob)\<rparr>
      in ob\<lparr>o_rotation := e, o_quaternion := quatFromEuler eng e\<rparr>)"

definition setQuaternion :: "engine \<Rightarrow> quat \<Rightarrow> obj \<Rightarrow> obj" where
  "setQuaternion eng q ob =
     (let a = eulerFromQuat eng q (eorder (o_rotation ob))
      in ob\<lparr>o_quaternion := q,
            o_rotation := \<lparr>ex = vx a, ey = vy a, ez = vz a, eorder = eorder (o_rotation ob)\<rparr>\<rparr>)"

definition putObject :: "string \<Rightarrow> obj \<Rightarrow> peng3d \<Rightarrow> peng3d" where
  "putObject name ob s = s\<lparr>objects := AList.update name ob (objects s)\<rparr>"

text \<open>\<open>_updatePhysicsTransform(name)\<close>: object to body, velocities zeroed, body woken.\<close>

definition updatePhysicsTransform :: "string \<Rightarrow> peng3d \<Rightarrow> peng3d" where
  "updatePhysicsTransform name s =
     (case map_of (physicsBodies s) name of
        None \<Rightarrow> s
      | Some i \<Rightarrow>
          (case bodies s i of
             None \<Rightarrow> s
           | Some b \<Rightarrow>
               (case map_of (objects s) name of
                  None \<Rightarrow> s
                | Some ob \<Rightarrow>
                    s\<lparr>bodies := (bodies s)(i \<mapsto>
                         b\<lparr>b_position := o_position ob,
                           b_quaternion := o_quaternion ob,
                           b_velocity := vec 0 0 0,
                           b_angularVelocity := vec 0 0 0,
                           b_awake := True\<rparr>)\<rparr>)))"

definition d2r :: real where
  "d2r = pi / 180"

definition setPos :: "string \<Rightarrow> real \<Rightarrow> real \<Rightarrow> real \<Rightarrow> peng3d \<Rightarrow> peng3d" where
  "setPos name x y z s =
     (case map_of (objects s) name of
        None \<Rightarrow> s
      | Some ob \<Rightarrow>
          requestRender (updatePhysicsTransform name
            (putObject name (ob\<lparr>o_position := vec x y z\<rparr>) s)))"

definition changePosition :: "string \<Rightarrow> real \<Rightarrow> real \<Rightarrow> real \<Rightarrow> peng3d \<Rightarrow> peng3d" where
  "changePosition name x y z s =
     (case map_of (objects s) name of
        None \<Rightarrow> s
      | Some ob \<Rightarrow>
          requestRender (updatePhysicsTransform name
            (putObject name
               (ob\<lparr>o_position := vec (vx (o_position ob) + x) (vy (o_position ob) + y)
                                      (vz (o_position ob) + z)\<rparr>) s)))"

definition moveObject :: "engine \<Rightarrow> string \<Rightarrow> real \<Rightarrow> real \<Rightarrow> real \<Rightarrow> peng3d \<Rightarrow> peng3d" where
  "moveObject eng name x y z s =
     (case map_of (objects s) name of
        None \<Rightarrow> s
      | Some ob \<Rightarrow>
          (let v = applyQuaternion eng (vec x y (- z)) (o_quaternion ob)
           in requestRender (updatePhysicsTransform name
                (putObject name (ob\<lparr>o_position := vadd (o_position ob) v\<rparr>) s))))"

definition setRot :: "engine \<Rightarrow> string \<Rightarrow> real \<Rightarrow> real \<Rightarrow> real \<Rightarrow> peng3d \<Rightarrow> peng3d" where
  "setRot eng name x y z s =
     (case map_of (objects s) name of
        None \<Rightarrow> s
      | Some ob \<Rightarrow>
          requestRender (updatePhysicsTransform name
            (putObject name (setRotationXYZ eng (x * d2r) (y * d2r) (z * d2r) ob) s)))"

text \<open>\<open>changeRotation\<close> and \<open>setRotYawPitch\<close> go through the reusable \<open>_euler\<close>, whose order
  stays what the last call left.\<close>

definition changeRotation :: "engine \<Rightarrow> string \<Rightarrow> real \<Rightarrow> real \<Rightarrow> real \<Rightarrow> peng3d \<Rightarrow> peng3d" where
  "changeRotation eng name x y z s =
     (case map_of (objects s) name of
        None \<Rightarrow> s
      | Some ob \<Rightarrow>
          (let ord = eorder (euler_tmp s);
               a = eulerFromQuat eng (o_quaternion ob) ord;
               e = \<lparr>ex = vx a + x * d2r, ey = vy a + y * d2r, ez = vz a + z * d2r,
                    eorder = ord\<rparr>
           in requestRender (updatePhysicsTransform name
                (putObject name (setQuaternion eng (quatFromEuler eng e) ob)
                   (s\<lparr>euler_tmp := e\<rparr>)))))"

definition setRotYawPitch :: "engine \<Rightarrow> string \<Rightarrow> real \<Rightarrow> real \<Rightarrow> peng3d \<Rightarrow> peng3d" where
  "setRotYawPitch eng name yaw pitch s =
     (case map_of (objects s) name of
        None \<Rightarrow> s
      | Some ob \<Rightarrow>
          (let e = \<lparr>ex = pitch * d2r, ey = (- yaw) * d2r, ez = 0, eorder = YXZ\<rparr>
           in requestRender (updatePhysicsTransform name
                (putObject name (setQuaternion eng (quatFromEuler eng e) ob)
                   (s\<lparr>euler_tmp := e\<rparr>)))))"

definition lookAtObject :: "engine \<Rightarrow> string \<Rightarrow> string \<Rightarrow> peng3d \<Rightarrow> peng3d" where
  "lookAtObject eng name target s =
     (case map_of (objects s) name of
        None \<Rightarrow> s
      | Some ob \<Rightarrow>
          (case map_of (objects s) target of
             None \<Rightarrow> s
           | Some tg \<Rightarrow>
               (let o1 = setQuaternion eng (lookAtQuat eng (objects s) ob (o_position tg)) ob;
                    o2 = setQuaternion eng (rotateYQuat eng (o_quaternion o1) pi) o1
                in requestRender (updatePhysicsTransform name (putObject name o2 s)))))"

definition setScale :: "string \<Rightarrow> real \<Rightarrow> real \<Rightarrow> real \<Rightarrow> peng3d \<Rightarrow> peng3d" where
  "setScale name x y z s =
     (case map_of (objects s) name of
        None \<Rightarrow> s
      | Some ob \<Rightarrow> requestRender (putObject name (ob\<lparr>o_scale := vec x y z\<rparr>) s))"

section \<open>The forward ray query\<close>





section \<open>Appearance\<close>

text \<open>The colour is the packed integer \<open>0xRRGGBB\<close> that \<open>Color.set\<close> stores for the
  block's colour argument.\<close>

definition setColor :: "string \<Rightarrow> nat \<Rightarrow> peng3d \<Rightarrow> peng3d" where
  "setColor name c s =
     (case map_of (objects s) name of
        None \<Rightarrow> s
      | Some ob \<Rightarrow>
          requestRender
            (case o_node ob of
               Mesh g m \<Rightarrow> putObject name (ob\<lparr>o_node := Mesh g (PrivateClone c)\<rparr>) s
             | PointLight c0 i d \<Rightarrow> putObject name (ob\<lparr>o_node := PointLight c i d\<rparr>) s
             | PerspectiveCamera f r \<Rightarrow> s))"

section \<open>Physics\<close>

text \<open>The collision shape, from the object's type and its scale at that moment.\<close>

definition donutShapes :: "real \<Rightarrow> (shape \<times> vec3 \<times> quat) list" where
  "donutShapes sx =
     map (\<lambda>i. (SphereShape (2 / 10 * sx),
                vec (cos (real i / 16 * pi * 2) * (5 / 10 * sx))
                    (sin (real i / 16 * pi * 2) * (5 / 10 * sx)) 0,
                quat_identity))
         [0..<16]"

definition shapesFor :: "string \<Rightarrow> vec3 \<Rightarrow> (shape \<times> vec3 \<times> quat) list" where
  "shapesFor type sc =
     (if type = ''Sphere'' then [(SphereShape (6 / 10 * vx sc), vec 0 0 0, quat_identity)]
      else if type = ''Cylinder'' \<or> type = ''Cone'' then
        [(CylinderShape (if type = ''Cone'' then 1 / 100 else 5 / 10 * vx sc)
            (5 / 10 * vx sc) (1 * vy sc) 32,
          vec 0 0 0, setFromAxisAngle (vec 1 0 0) (- pi / 2))]
      else if type = ''Donut'' then donutShapes (vx sc)
      else [(BoxShape (vec (5 / 10 * vx sc) (5 / 10 * vy sc) (5 / 10 * vz sc)),
             vec 0 0 0, quat_identity)])"

definition enablePhysics :: "string \<Rightarrow> peng3d \<Rightarrow> peng3d" where
  "enablePhysics name s =
     (case map_of (objects s) name of
        None \<Rightarrow> s
      | Some ob \<Rightarrow>
          if \<not> isMesh ob then s
          else
            (let s1 = (case map_of (physicsBodies s) name of
                         None \<Rightarrow> s
                       | Some j \<Rightarrow>
                           s\<lparr>world := removeBody j (world s),
                             bodyToName := AList.delete j (bodyToName s)\<rparr>);
                 type = (if o_type ob = [] then ''Cube'' else o_type ob);
                 i = nextBodyId s1;
                 b = \<lparr>b_id = i, b_name = name, b_mass = 1, b_type = DYNAMIC,
                      b_material = DefaultPhysMaterial,
                      b_linearDamping = 1 / 100, b_angularDamping = 1 / 100,
                      b_position = o_position ob,
                      b_quaternion = o_quaternion ob,
                      b_velocity = vec 0 0 0, b_angularVelocity = vec 0 0 0,
                      b_shapes = shapesFor type (o_scale ob),
                      b_awake = True\<rparr>
             in s1\<lparr>world := addBody i (world s1),
                   bodies := (bodies s1)(i \<mapsto> b),
                   physicsBodies := AList.update name i (physicsBodies s1),
                   bodyToName := AList.update i name (bodyToName s1),
                   objectPhysData := AList.update name
                     \<lparr>pd_enabled = True, pd_mass = 1, pd_fixed = False,
                      pd_friction = 3 / 10, pd_bounciness = 3 / 10\<rparr> (objectPhysData s1),
                   nextBodyId := Suc i\<rparr>))"

text \<open>The loop after the solver step: for each name of the body registry, the body's
  position and quaternion are written into the object of that name, if there is one.\<close>

definition copyBack :: "engine \<Rightarrow> string \<Rightarrow> peng3d \<Rightarrow> peng3d" where
  "copyBack eng name s =
     (case map_of (physicsBodies s) name of
        None \<Rightarrow> s
      | Some i \<Rightarrow>
          (case bodies s i of
             None \<Rightarrow> s
           | Some b \<Rightarrow>
               (case map_of (objects s) name of
                  None \<Rightarrow> s
                | Some m \<Rightarrow>
                    putObject name
                      (setQuaternion eng (b_quaternion b) (m\<lparr>o_position := b_position b\<rparr>)) s)))"

text \<open>\<open>stepPhysics\<close>; \<open>now\<close> is what \<open>performance.now()\<close> returns at the call.\<close>

definition stepPhysics :: "engine \<Rightarrow> real \<Rightarrow> peng3d \<Rightarrow> peng3d" where
  "stepPhysics eng now s =
     (if lastPhysTime s = 0 then s\<lparr>lastPhysTime := now\<rparr>
      else
        (let dt = (now - lastPhysTime s) / 1000;
             r = worldStep eng (1 / 60) dt 10 (world s) (bodies s);
             s1 = s\<lparr>lastPhysTime := now, world := fst r, bodies := snd r\<rparr>
         in requestRender (fold (copyBack eng) (map fst (physicsBodies s1)) s1)))"

definition pushObject :: "engine \<Rightarrow> string \<Rightarrow> real \<Rightarrow> real \<Rightarrow> real \<Rightarrow> peng3d \<Rightarrow> peng3d" where
  "pushObject eng name x y z s =
     (case map_of (physicsBodies s) name of
        None \<Rightarrow> s
      | Some i \<Rightarrow>
          (case bodies s i of
             None \<Rightarrow> s
           | Some b \<Rightarrow>
               s\<lparr>bodies := (bodies s)(i \<mapsto>
                    applyImpulse eng (vec x y z) (b_position b) (b\<lparr>b_awake := True\<rparr>))\<rparr>))"

datatype error = TypeError

text \<open>\<open>setPhysProp\<close> reads \<open>objectPhysData[name]\<close> without a check: with a body but no such
  record, the property access throws.\<close>

definition setPhysProp :: "string \<Rightarrow> string \<Rightarrow> real \<Rightarrow> peng3d \<Rightarrow> error + peng3d" where
  "setPhysProp name prop val s =
     (case map_of (physicsBodies s) name of
        None \<Rightarrow> Inr s
      | Some i \<Rightarrow>
          (case bodies s i of
             None \<Rightarrow> Inr s
           | Some b \<Rightarrow>
               (case map_of (objectPhysData s) name of
                  None \<Rightarrow> Inl TypeError
                | Some pd \<Rightarrow>
                    if prop = ''fixed'' then
                      (let fixed = (val = 1);
                           pd1 = pd\<lparr>pd_fixed := fixed\<rparr>;
                           b1 = b\<lparr>b_mass := (if fixed then 0 else pd_mass pd1),
                                 b_type := (if fixed then STATIC else DYNAMIC),
                                 b_velocity := vec 0 0 0,
                                 b_awake := True\<rparr>
                       in Inr (s\<lparr>objectPhysData := AList.update name pd1 (objectPhysData s),
                                 bodies := (bodies s)(i \<mapsto> b1)\<rparr>))
                    else
                      (let pd1 = (if prop = ''friction'' then pd\<lparr>pd_friction := val\<rparr> else pd);
                           pd2 = (if prop = ''bounciness'' then pd1\<lparr>pd_bounciness := val\<rparr>
                                  else pd1);
                           fresh = (b_material b = DefaultPhysMaterial);
                           mat = (if fresh then BodyMaterial (nextMaterialId s)
                                  else b_material b);
                           w = world s;
                           w1 = w\<lparr>w_contactMaterials :=
                                  AList.update (mat, DefaultPhysMaterial)
                                    (pd_friction pd2, pd_bounciness pd2)
                                    (w_contactMaterials w)\<rparr>
                       in Inr (s\<lparr>objectPhysData := AList.update name pd2 (objectPhysData s),
                                 bodies := (bodies s)(i \<mapsto> b\<lparr>b_material := mat, b_awake := True\<rparr>),
                                 world := w1,
                                 nextMaterialId := (if fresh then Suc (nextMaterialId s)
                                                    else nextMaterialId s)\<rparr>)))))"

section \<open>Reporters, grouping, settings\<close>


text \<open>\<open>groupObjects\<close>: the child's body leaves the world and \<open>physicsBodies\<close> (nothing
  else), the child hangs under the parent and its position becomes the parent's origin.\<close>

definition groupObjects :: "string \<Rightarrow> string \<Rightarrow> peng3d \<Rightarrow> peng3d" where
  "groupObjects child parent s =
     (case map_of (objects s) child of
        None \<Rightarrow> s
      | Some c \<Rightarrow>
          (case map_of (objects s) parent of
             None \<Rightarrow> s
           | Some p \<Rightarrow>
               if o_id c = o_id p then s
               else
                 (let s1 = (case map_of (physicsBodies s) child of
                              None \<Rightarrow> s
                            | Some i \<Rightarrow>
                                s\<lparr>world := removeBody i (world s),
                                  physicsBodies := AList.delete child (physicsBodies s)\<rparr>)
                  in requestRender
                       (putObject child
                          (c\<lparr>o_parent := ChildOf (o_id p), o_position := vec 0 0 0\<rparr>) s1))))"

definition setCameraFar :: "real \<Rightarrow> obj \<Rightarrow> obj" where
  "setCameraFar r ob =
     (case o_node ob of
        PerspectiveCamera f r0 \<Rightarrow> ob\<lparr>o_node := PerspectiveCamera f r\<rparr>
      | _ \<Rightarrow> ob)"

definition setQualitySetting :: "string \<Rightarrow> real \<Rightarrow> peng3d \<Rightarrow> peng3d" where
  "setQualitySetting setting val s =
     requestRender
       (if setting = ''shadows'' then
          s\<lparr>cfg := (cfg s)\<lparr>shadows := (if val \<ge> 1 then 1 else 0)\<rparr>\<rparr>
        else if setting = ''renderDistance'' then
          s\<lparr>cfg := (cfg s)\<lparr>renderDistance := max 1 val\<rparr>,
            objects := map (\<lambda>(k, ob). (k, setCameraFar (max 1 val) ob)) (objects s)\<rparr>
        else s)"

section \<open>Scene serializer\<close>

text \<open>One element of the array that \<open>getSceneJSON\<close> hands to \<open>JSON.stringify\<close>.\<close>

record entry =
  e_name :: string
  e_type :: string
  e_pos :: vec3
  e_rot :: vec3
  e_scale :: vec3
  e_color :: nat
  e_lightProps :: "(real \<times> real) option"
  e_physics :: "physdata option"

definition materialColor :: "material \<Rightarrow> nat" where
  "materialColor m = (case m of SharedDefault \<Rightarrow> 0xffffff | PrivateClone c \<Rightarrow> c)"

definition colorOf :: "obj \<Rightarrow> nat" where
  "colorOf ob =
     (case o_node ob of
        Mesh g m \<Rightarrow> materialColor m
      | PointLight c i d \<Rightarrow> c
      | PerspectiveCamera f r \<Rightarrow> 0xffffff)"

definition entryOf :: "peng3d \<Rightarrow> string \<Rightarrow> obj \<Rightarrow> entry" where
  "entryOf s key ob =
     \<lparr>e_name = key,
      e_type = (if o_type ob = [] then ''Cube'' else o_type ob),
      e_pos = vec (vx (o_position ob)) (vy (o_position ob)) (vz (o_position ob)),
      e_rot = vec (ex (o_rotation ob)) (ey (o_rotation ob)) (ez (o_rotation ob)),
      e_scale = vec (vx (o_scale ob)) (vy (o_scale ob)) (vz (o_scale ob)),
      e_color = colorOf ob,
      e_lightProps = (case o_node ob of PointLight c i d \<Rightarrow> Some (i, d) | _ \<Rightarrow> None),
      e_physics = map_of (objectPhysData s) key\<rparr>"

text \<open>The registry holds every key once, so walking its pairs is walking its keys.\<close>

definition getSceneJSON :: "peng3d \<Rightarrow> entry list" where
  "getSceneJSON s = map (\<lambda>(key, ob). entryOf s key ob) (objects s)"

text \<open>
  What \<open>JSON.parse(args.JSON)\<close> gives \<open>loadSceneJSON\<close>: a syntax error (text that is not
  JSON), a value that \<open>for ... of\<close> cannot walk (an object such as the block's default
  \<open>{}\<close>, a number, a boolean, \<open>null\<close>), or an array. An array element has a name and a
  type, and may lack any other member. Reading \<open>item.pos.x\<close> or \<open>item.rot.x\<close> of an
  element without that member throws.
\<close>

record item =
  i_name :: string
  i_type :: string
  i_pos :: "vec3 option"
  i_rot :: "vec3 option"
  i_scale :: "vec3 option"
  i_color :: "nat option"
  i_physics :: "physdata option"

datatype parsed = ParseError | NotIterable | Items "item list"

definition modifyObject :: "string \<Rightarrow> (obj \<Rightarrow> obj) \<Rightarrow> peng3d \<Rightarrow> peng3d" where
  "modifyObject name f s =
     (case map_of (objects s) name of None \<Rightarrow> s | Some ob \<Rightarrow> putObject name (f ob) s)"

definition loadPhysics :: "string \<Rightarrow> physdata option \<Rightarrow> peng3d \<Rightarrow> error option \<times> peng3d" where
  "loadPhysics name ph s =
     (case ph of
        None \<Rightarrow> (None, s)
      | Some pd \<Rightarrow>
          if pd_enabled pd then
            (let s1 = enablePhysics name s
             in if pd_fixed pd then
                  (case setPhysProp name ''fixed'' 1 s1 of
                     Inl e \<Rightarrow> (Some e, s1)
                   | Inr s2 \<Rightarrow> (None, s2))
                else (None, s1))
          else (None, s))"

text \<open>The body of the loop. The result carries the state also when the element throws:
  what was written before the throw stays written.\<close>

definition loadItem :: "engine \<Rightarrow> item \<Rightarrow> peng3d \<Rightarrow> error option \<times> peng3d" where
  "loadItem eng it s =
     (let name = i_name it;
          s1 = createObject (i_type it) name s
      in case map_of (objects s1) name of
           None \<Rightarrow> (None, s1)
         | Some ob \<Rightarrow>
             (case i_pos it of
                None \<Rightarrow> (Some TypeError, s1)
              | Some p \<Rightarrow>
                  (let s2 = modifyObject name (\<lambda>ob. ob\<lparr>o_position := vec (vx p) (vy p) (vz p)\<rparr>) s1
                   in case i_rot it of
                        None \<Rightarrow> (Some TypeError, s2)
                      | Some r \<Rightarrow>
                          (let s3 = modifyObject name (setRotationXYZ eng (vx r) (vy r) (vz r)) s2;
                               s4 = (case i_scale it of
                                       None \<Rightarrow> s3
                                     | Some sc \<Rightarrow>
                                         modifyObject name
                                           (\<lambda>ob. ob\<lparr>o_scale := vec (vx sc) (vy sc) (vz sc)\<rparr>) s3);
                               s5 = (case i_color it of
                                       None \<Rightarrow> s4
                                     | Some c \<Rightarrow> if c \<noteq> 0 then setColor name c s4 else s4)
                           in loadPhysics name (i_physics it) s5))))"

fun loadItems :: "engine \<Rightarrow> item list \<Rightarrow> peng3d \<Rightarrow> error option \<times> peng3d" where
  "loadItems eng [] s = (None, s)"
| "loadItems eng (it # its) s =
     (case loadItem eng it s of
        (Some e, s1) \<Rightarrow> (Some e, s1)
      | (None, s1) \<Rightarrow> loadItems eng its s1)"

text \<open>\<open>loadSceneJSON\<close>: the parse comes first inside the \<open>try\<close>, the clear second, the loop
  third. The boolean says whether the \<open>catch\<close> ran (\<open>console.warn\<close>); no error leaves the
  function.\<close>

definition loadSceneJSON :: "engine \<Rightarrow> parsed \<Rightarrow> peng3d \<Rightarrow> bool \<times> peng3d" where
  "loadSceneJSON eng p s =
     (case p of
        ParseError \<Rightarrow> (True, s)
      | NotIterable \<Rightarrow> (True, deleteAllObjects s)
      | Items its \<Rightarrow>
          (case loadItems eng its (deleteAllObjects s) of
             (Some e, s1) \<Rightarrow> (True, s1)
           | (None, s1) \<Rightarrow> (False, requestRender s1)))"

text \<open>\<open>JSON.parse(JSON.stringify(data))\<close> for the array \<open>getSceneJSON\<close> builds: every member
  is present in every element.\<close>

definition itemOf :: "entry \<Rightarrow> item" where
  "itemOf e =
     \<lparr>i_name = e_name e, i_type = e_type e, i_pos = Some (e_pos e), i_rot = Some (e_rot e),
      i_scale = Some (e_scale e), i_color = Some (e_color e), i_physics = e_physics e\<rparr>"

definition parseDump :: "entry list \<Rightarrow> parsed" where
  "parseDump es = Items (map itemOf es)"

section \<open>The command blocks that take an object name\<close>

datatype command =
    SetPos string real real real
  | ChangePosition string real real real
  | MoveObject string real real real
  | SetRot string real real real
  | ChangeRotation string real real real
  | SetRotYawPitch string real real
  | LookAtObject string string
  | SetScale string real real real
  | SetColor string nat
  | DeleteObject string
  | EnablePhysics string
  | PushObject string real real real
  | SetPhysProp string string real


text \<open>Running a block: the new state, or the error that leaves the block.\<close>

fun exec :: "engine \<Rightarrow> command \<Rightarrow> peng3d \<Rightarrow> error + peng3d" where
  "exec eng (SetPos n x y z) s = Inr (setPos n x y z s)"
| "exec eng (ChangePosition n x y z) s = Inr (changePosition n x y z s)"
| "exec eng (MoveObject n x y z) s = Inr (moveObject eng n x y z s)"
| "exec eng (SetRot n x y z) s = Inr (setRot eng n x y z s)"
| "exec eng (ChangeRotation n x y z) s = Inr (changeRotation eng n x y z s)"
| "exec eng (SetRotYawPitch n yaw pitch) s = Inr (setRotYawPitch eng n yaw pitch s)"
| "exec eng (LookAtObject n t) s = Inr (lookAtObject eng n t s)"
| "exec eng (SetScale n x y z) s = Inr (setScale n x y z s)"
| "exec eng (SetColor n c) s = Inr (setColor n c s)"
| "exec eng (DeleteObject n) s = Inr (deleteObject n s)"
| "exec eng (EnablePhysics n) s = Inr (enablePhysics n s)"
| "exec eng (PushObject n x y z) s = Inr (pushObject eng n x y z s)"
| "exec eng (SetPhysProp n p v) s = setPhysProp n p v s"

section \<open>Notions the properties are stated with\<close>

text \<open>A name is linked when the object registry has an object for it, the body
  registry a body reference, and the reference leads to a body.\<close>

definition linked :: "peng3d \<Rightarrow> string \<Rightarrow> bool" where
  "linked s name =
     (case map_of (objects s) name of
        None \<Rightarrow> False
      | Some ob \<Rightarrow>
          (case map_of (physicsBodies s) name of
             None \<Rightarrow> False
           | Some i \<Rightarrow> bodies s i \<noteq> None))"

text \<open>The body of a name agrees with its object and is at rest.\<close>

definition synced :: "peng3d \<Rightarrow> string \<Rightarrow> bool" where
  "synced s name =
     (case map_of (objects s) name of
        None \<Rightarrow> False
      | Some ob \<Rightarrow>
          (case map_of (physicsBodies s) name of
             None \<Rightarrow> False
           | Some i \<Rightarrow>
               (case bodies s i of
                  None \<Rightarrow> False
                | Some b \<Rightarrow>
                    b_position b = o_position ob \<and> b_quaternion b = o_quaternion ob \<and>
                    b_velocity b = vec 0 0 0 \<and> b_angularVelocity b = vec 0 0 0)))"

text \<open>The object of a name carries the position and the quaternion of a body.\<close>

definition copied :: "peng3d \<Rightarrow> string \<Rightarrow> body \<Rightarrow> bool" where
  "copied s k b =
     (case map_of (objects s) k of
        None \<Rightarrow> False
      | Some m \<Rightarrow> o_position m = b_position b \<and> o_quaternion m = b_quaternion b)"

text \<open>The Euler angles of an object as they are stored (radians), and the same angles
  in degrees, the unit of the \<open>setRot\<close> and \<open>getRotation\<close> blocks.\<close>

definition eulerAngles :: "obj \<Rightarrow> vec3" where
  "eulerAngles ob = vec (ex (o_rotation ob)) (ey (o_rotation ob)) (ez (o_rotation ob))"

definition r2d :: real where
  "r2d = 180 / pi"

definition eulerDegrees :: "obj \<Rightarrow> vec3" where
  "eulerDegrees ob =
     vec (ex (o_rotation ob) * r2d) (ey (o_rotation ob) * r2d) (ez (o_rotation ob) * r2d)"




text \<open>Every name with a body reference has an object.\<close>

definition bodiesHaveObjects :: "peng3d \<Rightarrow> bool" where
  "bodiesHaveObjects s = (fst ` set (physicsBodies s) \<subseteq> fst ` set (objects s))"

text \<open>Every object of the scene was created when the object id counter stood at \<open>n\<close> or
  later.\<close>

definition createdSince :: "nat \<Rightarrow> peng3d \<Rightarrow> bool" where
  "createdSince n s = (n \<le> nextObjectId s \<and> list_all (\<lambda>p. n \<le> o_id (snd p)) (objects s))"

section \<open>Notions for the round trip\<close>

text \<open>The type a dump element carries, and the agreement of an object's node with its
  type that \<open>createObject\<close> establishes: a light is of type Light, a camera of type Camera,
  and everything else is a mesh.\<close>

definition dumpType :: "obj \<Rightarrow> string" where
  "dumpType ob = (if o_type ob = [] then ''Cube'' else o_type ob)"

definition nodeMatchesType :: "obj \<Rightarrow> bool" where
  "nodeMatchesType ob =
     (case o_node ob of
        Mesh g m \<Rightarrow> o_type ob \<noteq> ''Light'' \<and> o_type ob \<noteq> ''Camera''
      | PointLight c i d \<Rightarrow> o_type ob = ''Light''
      | PerspectiveCamera f r \<Rightarrow> o_type ob = ''Camera'')"

text \<open>What the blocks that work on one name leave of another name: its object, its body
  reference, its physics record, and every body of the store.\<close>

definition kept :: "peng3d \<Rightarrow> peng3d \<Rightarrow> string \<Rightarrow> bool" where
  "kept s t k =
     (map_of (objects t) k = map_of (objects s) k \<and>
      map_of (physicsBodies t) k = map_of (physicsBodies s) k \<and>
      map_of (objectPhysData t) k = map_of (objectPhysData s) k)"

text \<open>The object of name \<open>k\<close> in the state \<open>t\<close> reproduces the object \<open>ob\<close> with the physics
  record \<open>ph\<close>: same position, scale, stored Euler angles and colour, and, if the record
  says enabled and the object is a mesh, a linked body and the same fixed flag.\<close>

definition reproduces :: "peng3d \<Rightarrow> string \<Rightarrow> obj \<Rightarrow> physdata option \<Rightarrow> bool" where
  "reproduces t k ob ph =
     (case map_of (objects t) k of
        None \<Rightarrow> False
      | Some ob' \<Rightarrow>
          o_position ob' = o_position ob \<and> o_scale ob' = o_scale ob \<and>
          eulerAngles ob' = eulerAngles ob \<and> colorOf ob' = colorOf ob \<and>
          isMesh ob' = isMesh ob \<and>
          (case ph of
             None \<Rightarrow> True
           | Some pd \<Rightarrow>
               if pd_enabled pd \<and> isMesh ob
               then linked t k \<and>
                    map_option pd_fixed (map_of (objectPhysData t) k) = Some (pd_fixed pd)
               else True))"

section \<open>Reachable states\<close>

text \<open>
  What the registries look like in every state the blocks can reach: every name with a
  body reference has an object, the reference leads to a body, the world lists each body
  once, and all listed bodies were made before the body id counter reached its value.
\<close>

definition wellFormed :: "peng3d \<Rightarrow> bool" where
  "wellFormed s =
     (bodiesHaveObjects s \<and>
      distinct (w_bodies (world s)) \<and>
      list_all (\<lambda>i. i < nextBodyId s) (w_bodies (world s)) \<and>
      list_all (\<lambda>p. bodies s (snd p) \<noteq> None) (physicsBodies s))"

text \<open>Two states with the same names, the same body references, the same bodies in the
  world and at least the same bodies in the store: what a block leaves alike when it
  only rewrites an object or a body in place.\<close>

definition sameShape :: "peng3d \<Rightarrow> peng3d \<Rightarrow> bool" where
  "sameShape s t =
     (map fst (objects t) = map fst (objects s) \<and>
      physicsBodies t = physicsBodies s \<and>
      w_bodies (world t) = w_bodies (world s) \<and>
      nextBodyId t = nextBodyId s \<and>
      (\<forall>i. bodies s i \<noteq> None \<longrightarrow> bodies t i \<noteq> None))"

text \<open>The solver neither adds nor removes bodies.\<close>

definition solverKeepsBodies :: "engine \<Rightarrow> bool" where
  "solverKeepsBodies eng =
     (\<forall>tick dt n w h.
        w_bodies (fst (worldStep eng tick dt n w h)) = w_bodies w \<and>
        (\<forall>i. h i \<noteq> None \<longrightarrow> snd (worldStep eng tick dt n w h) i \<noteq> None))"

inductive reachable :: "engine \<Rightarrow> peng3d \<Rightarrow> bool" for eng :: engine where
  r_init: "reachable eng initState"
| r_create: "reachable eng s \<Longrightarrow> reachable eng (createObject type name s)"
| r_command: "reachable eng s \<Longrightarrow> exec eng c s = Inr s' \<Longrightarrow> reachable eng s'"
| r_deleteAll: "reachable eng s \<Longrightarrow> reachable eng (deleteAllObjects s)"
| r_step: "reachable eng s \<Longrightarrow> reachable eng (stepPhysics eng now s)"
| r_group: "reachable eng s \<Longrightarrow> reachable eng (groupObjects child parent s)"
| r_quality: "reachable eng s \<Longrightarrow> reachable eng (setQualitySetting setting val s)"
| r_load: "reachable eng s \<Longrightarrow> reachable eng (snd (loadSceneJSON eng p s))"
| r_frame: "reachable eng s \<Longrightarrow> reachable eng (animationFrame s)"

section \<open>A sample engine and sample scenes\<close>

text \<open>
  The closed theorems below evaluate the operations on concrete scenes, which needs one
  concrete engine. Every object of these scenes keeps the identity orientation, where
  rotating a vector returns it and all Euler angles are 0, as in three.js. The solver
  step is a stand-in (each body of the world moves by its velocity times the budget). An
  impulse at the body's own position, the only way the extension pushes, adds
  impulse / mass to the velocity of a dynamic body and has no angular part, as in
  cannon.js. The ray query is a stand-in as well: a ray that points along -Z hits the
  targets whose position lies on it between the near and the far bound, nearest first.
\<close>

definition sampleEngine :: engine where
  "sampleEngine =
     \<lparr>quatFromEuler = (\<lambda>e. quat_identity),
      eulerFromQuat = (\<lambda>q ord. vec 0 0 0),
      applyQuaternion = (\<lambda>v q. v),
      lookAtQuat = (\<lambda>objs ob t. quat_identity),
      rotateYQuat = (\<lambda>q a. q),
      worldStep = (\<lambda>tick dt maxSub w h.
         (w\<lparr>w_time := w_time w + dt\<rparr>,
          (\<lambda>i. if i \<in> set (w_bodies w)
                then map_option
                       (\<lambda>b. b\<lparr>b_position :=
                                 vec (vx (b_position b) + dt * vx (b_velocity b))
                                     (vy (b_position b) + dt * vy (b_velocity b))
                                     (vz (b_position b) + dt * vz (b_velocity b))\<rparr>)
                       (h i)
                else h i))),
      applyImpulse = (\<lambda>imp pt b.
         if b_type b = DYNAMIC
         then b\<lparr>b_velocity := vec (vx (b_velocity b) + vx imp / b_mass b)
                                   (vy (b_velocity b) + vy imp / b_mass b)
                                   (vz (b_velocity b) + vz imp / b_mass b)\<rparr>
         else b),
      intersectObjects = (\<lambda>objs r ts.
         if r_direction r = vec 0 0 (- 1)
         then sort_key h_distance
                (map (\<lambda>t. \<lparr>h_distance = vz (r_origin r) - vz (o_position t), h_object = t\<rparr>)
                   [t \<leftarrow> ts. vx (o_position t) = vx (r_origin r) \<and>
                              vy (o_position t) = vy (r_origin r) \<and>
                              r_near r \<le> vz (r_origin r) - vz (o_position t) \<and>
                              vz (r_origin r) - vz (o_position t) \<le> r_far r])
         else [])\<rparr>"

text \<open>A cube with physics enabled; the same cube after a push upwards; the pushed cube
  after its first physics step at clock reading 1000.\<close>

definition sceneA :: peng3d where
  "sceneA = enablePhysics ''A'' (createObject ''Cube'' ''A'' initState)"

definition scenePushed :: peng3d where
  "scenePushed = pushObject sampleEngine ''A'' 0 10 0 sceneA"

definition sceneRunning :: peng3d where
  "sceneRunning = stepPhysics sampleEngine 1000 scenePushed"


text \<open>A cube turned by the \<open>setRot\<close> block, by 90 and by 180 degrees about X.\<close>

definition sceneCube :: peng3d where
  "sceneCube = createObject ''Cube'' ''A'' initState"

definition sceneRot90 :: peng3d where
  "sceneRot90 = setRot sampleEngine ''A'' 90 0 0 sceneCube"

definition sceneRot180 :: peng3d where
  "sceneRot180 = setRot sampleEngine ''A'' 180 0 0 sceneCube"

text \<open>A cube coloured black.\<close>

definition sceneBlack :: peng3d where
  "sceneBlack = setColor ''A'' 0 sceneCube"




text \<open>The cube of \<open>sceneLook\<close>, and the child of \<open>sceneGrouped\<close>.\<close>

definition cubeA :: obj where
  "cubeA =
     \<lparr>o_id = 0, o_name = ''A'', o_type = ''Cube'', o_node = Mesh ''Cube'' SharedDefault,
      o_position = vec 0 0 0, o_rotation = \<lparr>ex = 0, ey = 0, ez = 0, eorder = XYZ\<rparr>,
      o_quaternion = quat_identity, o_scale = vec 1 1 1, o_parent = SceneRoot\<rparr>"


section \<open>Frame lemmas\<close>

lemma requestRender_fields [simp]:
  "objects (requestRender s) = objects s"
  "physicsBodies (requestRender s) = physicsBodies s"
  "objectPhysData (requestRender s) = objectPhysData s"
  "bodyToName (requestRender s) = bodyToName s"
  "bodies (requestRender s) = bodies s"
  "world (requestRender s) = world s"
  "lastPhysTime (requestRender s) = lastPhysTime s"
  "cfg (requestRender s) = cfg s"
  "activeCamera (requestRender s) = activeCamera s"
  "euler_tmp (requestRender s) = euler_tmp s"
  "nextObjectId (requestRender s) = nextObjectId s"
  "nextBodyId (requestRender s) = nextBodyId s"
  "renderPending (requestRender s) = True"
  by (simp_all add: requestRender_def)

lemma putObject_fields [simp]:
  "objects (putObject n ob s) = AList.update n ob (objects s)"
  "physicsBodies (putObject n ob s) = physicsBodies s"
  "objectPhysData (putObject n ob s) = objectPhysData s"
  "bodyToName (putObject n ob s) = bodyToName s"
  "bodies (putObject n ob s) = bodies s"
  "world (putObject n ob s) = world s"
  "lastPhysTime (putObject n ob s) = lastPhysTime s"
  "cfg (putObject n ob s) = cfg s"
  "nextObjectId (putObject n ob s) = nextObjectId s"
  "nextBodyId (putObject n ob s) = nextBodyId s"
  by (simp_all add: putObject_def)

lemma setQuaternion_fields [simp]:
  "o_quaternion (setQuaternion eng q ob) = q"
  "o_position (setQuaternion eng q ob) = o_position ob"
  "o_scale (setQuaternion eng q ob) = o_scale ob"
  "o_id (setQuaternion eng q ob) = o_id ob"
  "o_name (setQuaternion eng q ob) = o_name ob"
  "o_type (setQuaternion eng q ob) = o_type ob"
  "o_node (setQuaternion eng q ob) = o_node ob"
  "o_parent (setQuaternion eng q ob) = o_parent ob"
  "eorder (o_rotation (setQuaternion eng q ob)) = eorder (o_rotation ob)"
  by (simp_all add: setQuaternion_def Let_def)

lemma setRotationXYZ_fields [simp]:
  "o_rotation (setRotationXYZ eng x y z ob) =
     \<lparr>ex = x, ey = y, ez = z, eorder = eorder (o_rotation ob)\<rparr>"
  "o_position (setRotationXYZ eng x y z ob) = o_position ob"
  "o_scale (setRotationXYZ eng x y z ob) = o_scale ob"
  "o_id (setRotationXYZ eng x y z ob) = o_id ob"
  "o_name (setRotationXYZ eng x y z ob) = o_name ob"
  "o_type (setRotationXYZ eng x y z ob) = o_type ob"
  "o_node (setRotationXYZ eng x y z ob) = o_node ob"
  "o_parent (setRotationXYZ eng x y z ob) = o_parent ob"
  by (simp_all add: setRotationXYZ_def Let_def)

section \<open>The copy from bodies to objects\<close>

lemma copyBack_fields [simp]:
  "physicsBodies (copyBack eng n s) = physicsBodies s"
  "bodies (copyBack eng n s) = bodies s"
  "world (copyBack eng n s) = world s"
  "lastPhysTime (copyBack eng n s) = lastPhysTime s"
  "objectPhysData (copyBack eng n s) = objectPhysData s"
  "bodyToName (copyBack eng n s) = bodyToName s"
  by (simp_all add: copyBack_def split: option.splits)

lemma fold_copyBack_fields [simp]:
  "physicsBodies (fold (copyBack eng) ns s) = physicsBodies s"
  "bodies (fold (copyBack eng) ns s) = bodies s"
  "world (fold (copyBack eng) ns s) = world s"
  "lastPhysTime (fold (copyBack eng) ns s) = lastPhysTime s"
  "objectPhysData (fold (copyBack eng) ns s) = objectPhysData s"
  "bodyToName (fold (copyBack eng) ns s) = bodyToName s"
  by (induction ns arbitrary: s; simp)+

lemma copyBack_other:
  "k \<noteq> n \<Longrightarrow> map_of (objects (copyBack eng n s)) k = map_of (objects s) k"
  by (simp add: copyBack_def update_conv' split: option.splits)

lemma copyBack_same:
  "map_of (physicsBodies s) k = Some i \<Longrightarrow> bodies s i = Some b \<Longrightarrow>
   map_of (objects s) k = Some m \<Longrightarrow> copied (copyBack eng k s) k b"
  by (simp add: copyBack_def copied_def update_conv')

lemma copyBack_keeps_known:
  "map_of (objects s) k \<noteq> None \<Longrightarrow> map_of (objects (copyBack eng n s)) k \<noteq> None"
  by (cases "k = n") (auto simp: copyBack_def update_conv' split: option.splits)

lemma copyBack_keeps_copied:
  "map_of (physicsBodies s) k = Some i \<Longrightarrow> bodies s i = Some b \<Longrightarrow>
   copied s k b \<Longrightarrow> copied (copyBack eng n s) k b"
  by (cases "k = n") (auto simp: copyBack_def copied_def update_conv' split: option.splits)

text \<open>The loop, by induction on the names still to visit: a name that is yet to come
  will be copied, and a name that was copied stays so.\<close>

lemma fold_copyBack_copied:
  "map_of (physicsBodies s) k = Some i \<Longrightarrow> bodies s i = Some b \<Longrightarrow>
   map_of (objects s) k \<noteq> None \<Longrightarrow> k \<in> set ns \<or> copied s k b \<Longrightarrow>
   copied (fold (copyBack eng) ns s) k b"
proof (induction ns arbitrary: s)
  case Nil
  then show ?case by simp
next
  case (Cons n ns)
  have c: "k \<in> set ns \<or> copied (copyBack eng n s) k b"
  proof (cases "k = n")
    case True
    with Cons.prems show ?thesis by (auto intro: copyBack_same)
  next
    case False
    with Cons.prems show ?thesis
      by (auto intro: copyBack_keeps_copied)
  qed
  show ?case
    using Cons.IH [of "copyBack eng n s"] Cons.prems(1-3) c
    by (simp add: copyBack_keeps_known)
qed

lemma stepPhysics_first:
  "lastPhysTime s = 0 \<Longrightarrow> stepPhysics eng now s = s\<lparr>lastPhysTime := now\<rparr>"
  by (simp add: stepPhysics_def)

lemma stepPhysics_later:
  assumes "lastPhysTime s \<noteq> 0"
  shows "world (stepPhysics eng now s) =
           fst (worldStep eng (1 / 60) ((now - lastPhysTime s) / 1000) 10 (world s) (bodies s))"
    and "bodies (stepPhysics eng now s) =
           snd (worldStep eng (1 / 60) ((now - lastPhysTime s) / 1000) 10 (world s) (bodies s))"
    and "lastPhysTime (stepPhysics eng now s) = now"
    and "physicsBodies (stepPhysics eng now s) = physicsBodies s"
  using assms by (simp_all add: stepPhysics_def Let_def)

lemma stepPhysics_copies:
  assumes "lastPhysTime s \<noteq> 0"
    and "map_of (physicsBodies s) k = Some i"
    and "snd (worldStep eng (1 / 60) ((now - lastPhysTime s) / 1000) 10 (world s) (bodies s)) i
           = Some b"
    and "map_of (objects s) k = Some m"
  shows "copied (stepPhysics eng now s) k b"
proof -
  have "k \<in> set (map fst (physicsBodies s))"
    using assms(2) by (metis map_of_eq_None_iff option.distinct(1) set_map)
  then show ?thesis
    using assms
    by (simp add: stepPhysics_def Let_def copied_def)
       (rule fold_copyBack_copied [unfolded copied_def], simp_all)
qed

section \<open>The sample scenes, evaluated\<close>

lemmas build_defs =
  enablePhysics_def createObject_def initState_def requestRender_def newNode_def
  sharedGeometryKeys_def isMesh_def Let_def shapesFor_def addBody_def
  updatePhysicsTransform_def putObject_def

lemma sceneA_objects:
  "objects sceneA =
     [(''A'', \<lparr>o_id = 0, o_name = ''A'', o_type = ''Cube'',
              o_node = Mesh ''Cube'' SharedDefault,
              o_position = vec 0 0 0,
              o_rotation = \<lparr>ex = 0, ey = 0, ez = 0, eorder = XYZ\<rparr>,
              o_quaternion = quat_identity,
              o_scale = vec 1 1 1,
              o_parent = SceneRoot\<rparr>)]"
  by (simp add: sceneA_def build_defs)

lemma sceneA_registry:
  "physicsBodies sceneA = [(''A'', 0)]"
  "w_bodies (world sceneA) = [0]"
  "lastPhysTime sceneA = 0"
  by (simp_all add: sceneA_def build_defs)

lemma sceneA_body:
  "bodies sceneA 0 =
     Some \<lparr>b_id = 0, b_name = ''A'', b_mass = 1, b_type = DYNAMIC,
           b_material = DefaultPhysMaterial,
           b_linearDamping = 1 / 100, b_angularDamping = 1 / 100,
           b_position = vec 0 0 0,
           b_quaternion = quat_identity,
           b_velocity = vec 0 0 0, b_angularVelocity = vec 0 0 0,
           b_shapes = [(BoxShape (vec (1 / 2) (1 / 2) (1 / 2)), vec 0 0 0, quat_identity)],
           b_awake = True\<rparr>"
  by (simp add: sceneA_def build_defs vec_def)

lemma scenePushed_fields:
  "objects scenePushed = objects sceneA"
  "physicsBodies scenePushed = [(''A'', 0)]"
  "w_bodies (world scenePushed) = [0]"
  "lastPhysTime scenePushed = 0"
  by (simp_all add: scenePushed_def pushObject_def sceneA_registry sceneA_body)

lemma scenePushed_body:
  "bodies scenePushed 0 =
     Some \<lparr>b_id = 0, b_name = ''A'', b_mass = 1, b_type = DYNAMIC,
           b_material = DefaultPhysMaterial,
           b_linearDamping = 1 / 100, b_angularDamping = 1 / 100,
           b_position = vec 0 0 0,
           b_quaternion = quat_identity,
           b_velocity = vec 0 10 0, b_angularVelocity = vec 0 0 0,
           b_shapes = [(BoxShape (vec (1 / 2) (1 / 2) (1 / 2)), vec 0 0 0, quat_identity)],
           b_awake = True\<rparr>"
  by (simp add: scenePushed_def pushObject_def sceneA_registry sceneA_body sampleEngine_def
      vec_def)

lemma sceneRunning_fields:
  "objects sceneRunning = objects sceneA"
  "physicsBodies sceneRunning = [(''A'', 0)]"
  "w_bodies (world sceneRunning) = [0]"
  "lastPhysTime sceneRunning = 1000"
  "bodies sceneRunning = bodies scenePushed"
  by (simp_all add: sceneRunning_def stepPhysics_def scenePushed_fields)

lemma scenePushed_linked: "linked scenePushed ''A''"
  by (simp add: linked_def scenePushed_fields sceneA_objects scenePushed_body)

lemma sampleEngine_worldStep:
  "snd (worldStep sampleEngine tick dt n w h) i =
     (if i \<in> set (w_bodies w)
      then map_option
             (\<lambda>b. b\<lparr>b_position :=
                       vec (vx (b_position b) + dt * vx (b_velocity b))
                           (vy (b_position b) + dt * vy (b_velocity b))
                           (vz (b_position b) + dt * vz (b_velocity b))\<rparr>)
             (h i)
      else h i)"
  by (simp add: sampleEngine_def)



section \<open>Object to body\<close>

lemma updatePhysicsTransform_fields [simp]:
  "objects (updatePhysicsTransform n s) = objects s"
  "physicsBodies (updatePhysicsTransform n s) = physicsBodies s"
  "objectPhysData (updatePhysicsTransform n s) = objectPhysData s"
  "bodyToName (updatePhysicsTransform n s) = bodyToName s"
  "world (updatePhysicsTransform n s) = world s"
  by (simp_all add: updatePhysicsTransform_def split: option.splits)

lemma updatePhysicsTransform_synced:
  "map_of (objects s) name = Some ob \<Longrightarrow> map_of (physicsBodies s) name = Some i \<Longrightarrow>
   bodies s i = Some b \<Longrightarrow> synced (updatePhysicsTransform name s) name"
  by (simp add: updatePhysicsTransform_def synced_def)

lemma synced_requestRender [simp]: "synced (requestRender s) name = synced s name"
  by (simp add: synced_def cong: option.case_cong)

lemma put_then_sync:
  assumes "linked s name"
    and "physicsBodies t = physicsBodies s" and "bodies t = bodies s"
  shows "synced (updatePhysicsTransform name (putObject name ob t)) name"
proof -
  from assms(1) obtain i b where
    "map_of (physicsBodies s) name = Some i" "bodies s i = Some b"
    by (auto simp: linked_def split: option.splits)
  then show ?thesis
    using assms(2,3)
    by (simp add: updatePhysicsTransform_synced [where ob = ob and i = i and b = b]
        update_conv')
qed

lemma disposeObject_None [simp]: "disposeObject None name s = s"
  by (simp add: disposeObject_def)

section \<open>Creating over an existing name\<close>

lemma update_fresh: "map_of al k = None \<Longrightarrow> AList.update k v al = al @ [(k, v)]"
  by (induction al) (auto split: if_splits)


lemma filter_key_fresh: "map_of al k = None \<Longrightarrow> [p \<leftarrow> al. fst p = k] = []"
  by (induction al) (auto split: if_splits)



lemma createObject_fresh:
  assumes "map_of (objects s) name = None"
  shows "objects (createObject type name s) =
           objects s @
           [(name, \<lparr>o_id = nextObjectId s, o_name = name, o_type = type,
                    o_node = newNode (cfg s) type,
                    o_position = vec 0 0 0,
                    o_rotation = \<lparr>ex = 0, ey = 0, ez = 0, eorder = XYZ\<rparr>,
                    o_quaternion = quat_identity,
                    o_scale = vec 1 1 1,
                    o_parent = SceneRoot\<rparr>)]"
    and "physicsBodies (createObject type name s) = physicsBodies s"
    and "world (createObject type name s) = world s"
    and "bodyToName (createObject type name s) = bodyToName s"
    and "objectPhysData (createObject type name s) = objectPhysData s"
    and "bodies (createObject type name s) = bodies s"
  using assms
  by (simp_all add: createObject_def Let_def update_fresh)


lemma createObject_cfg [simp]: "cfg (createObject type name s) = cfg s"
  by (simp add: createObject_def disposeObject_def Let_def split: option.splits)

section \<open>What the dump stores\<close>

lemma sceneCube_objects:
  "objects sceneCube =
     [(''A'', \<lparr>o_id = 0, o_name = ''A'', o_type = ''Cube'',
              o_node = Mesh ''Cube'' SharedDefault,
              o_position = vec 0 0 0,
              o_rotation = \<lparr>ex = 0, ey = 0, ez = 0, eorder = XYZ\<rparr>,
              o_quaternion = quat_identity,
              o_scale = vec 1 1 1,
              o_parent = SceneRoot\<rparr>)]"
  by (simp add: sceneCube_def build_defs)

lemma sceneCube_physics:
  "physicsBodies sceneCube = []" "objectPhysData sceneCube = []"
  by (simp_all add: sceneCube_def build_defs)

lemma setRot_rotation:
  assumes "map_of (objects s) name = Some ob"
  shows "map_option eulerAngles (map_of (objects (setRot eng name x y z s)) name) =
           Some (vec (x * pi / 180) (y * pi / 180) (z * pi / 180))"
  using assms by (simp add: setRot_def update_conv' eulerAngles_def d2r_def)

lemma getSceneJSON_rot:
  "map (\<lambda>e. (e_name e, e_rot e)) (getSceneJSON s) =
     map (\<lambda>(key, ob). (key, eulerAngles ob)) (objects s)"
  by (simp add: getSceneJSON_def entryOf_def eulerAngles_def split_def)

section \<open>Clearing the scene\<close>

lemma map_of_None_delete: "map_of al k = None \<Longrightarrow> AList.delete k al = al"
  by (simp add: map_of_eq_None_iff)

lemma filter_delete: "[p \<leftarrow> AList.delete k al. P p] = [p \<leftarrow> al. fst p \<noteq> k \<and> P p]"
  by (induction al) auto

lemma keys_delete: "fst ` set (AList.delete k al) = fst ` set al - {k}"
  by (auto simp: AList.delete_eq)

lemma disposeByName_objects:
  "objects (disposeByName k s) = AList.delete k (objects s)"
  by (simp add: disposeByName_def disposeObject_def Let_def map_of_None_delete
      split: option.splits)


lemma disposeByName_fields [simp]:
  "lastPhysTime (disposeByName k s) = lastPhysTime s"
  "activeCamera (disposeByName k s) = activeCamera s"
  "nextObjectId (disposeByName k s) = nextObjectId s"
  "cfg (disposeByName k s) = cfg s"
  by (simp_all add: disposeByName_def disposeObject_def Let_def split: option.splits)

lemma fold_disposeByName_fields [simp]:
  "lastPhysTime (fold disposeByName ks s) = lastPhysTime s"
  "activeCamera (fold disposeByName ks s) = activeCamera s"
  "nextObjectId (fold disposeByName ks s) = nextObjectId s"
  "cfg (fold disposeByName ks s) = cfg s"
  by (induction ks arbitrary: s; simp)+

lemma fold_disposeByName_objects:
  "objects (fold disposeByName ks s) = [p \<leftarrow> objects s. fst p \<notin> set ks]"
proof (induction ks arbitrary: s)
  case Nil
  show ?case by simp
next
  case (Cons k ks)
  have "objects (fold disposeByName (k # ks) s) =
          [p \<leftarrow> AList.delete k (objects s). fst p \<notin> set ks]"
    by (simp add: Cons.IH disposeByName_objects)
  also have "\<dots> = [p \<leftarrow> objects s. fst p \<noteq> k \<and> fst p \<notin> set ks]"
    by (rule filter_delete)
  also have "\<dots> = [p \<leftarrow> objects s. fst p \<notin> set (k # ks)]"
    by (rule filter_cong) auto
  finally show ?case .
qed


lemma deleteAllObjects_objects: "objects (deleteAllObjects s) = []"
  by (simp add: deleteAllObjects_def fold_disposeByName_objects)


lemma deleteAllObjects_fields [simp]:
  "lastPhysTime (deleteAllObjects s) = 0"
  "activeCamera (deleteAllObjects s) = None"
  "nextObjectId (deleteAllObjects s) = nextObjectId s"
  "cfg (deleteAllObjects s) = cfg s"
  by (simp_all add: deleteAllObjects_def)

section \<open>What a load leaves\<close>

lemma list_all_delete: "list_all P al \<Longrightarrow> list_all P (AList.delete k al)"
  by (simp add: AList.delete_eq list_all_iff)

lemma list_all_update: "list_all P al \<Longrightarrow> P (k, v) \<Longrightarrow> list_all P (AList.update k v al)"
  by (induction al) auto




lemma enablePhysics_objects [simp]:
  "objects (enablePhysics name s) = objects s"
  "nextObjectId (enablePhysics name s) = nextObjectId s"
  by (simp_all add: enablePhysics_def Let_def split: option.splits)





lemma createdSince_requestRender [simp]:
  "createdSince n (requestRender s) = createdSince n s"
  by (simp add: createdSince_def)





section \<open>The ray and its targets\<close>











section \<open>A dump, loaded again\<close>

lemma sceneBlack_objects:
  "objects sceneBlack =
     [(''A'', \<lparr>o_id = 0, o_name = ''A'', o_type = ''Cube'',
              o_node = Mesh ''Cube'' (PrivateClone 0),
              o_position = vec 0 0 0,
              o_rotation = \<lparr>ex = 0, ey = 0, ez = 0, eorder = XYZ\<rparr>,
              o_quaternion = quat_identity,
              o_scale = vec 1 1 1,
              o_parent = SceneRoot\<rparr>)]"
  "objectPhysData sceneBlack = []"
  by (simp_all add: sceneBlack_def setColor_def sceneCube_objects sceneCube_physics
      putObject_def)

lemma sceneBlack_dump:
  "getSceneJSON sceneBlack =
     [\<lparr>e_name = ''A'', e_type = ''Cube'', e_pos = vec 0 0 0, e_rot = vec 0 0 0,
       e_scale = vec 1 1 1, e_color = 0, e_lightProps = None, e_physics = None\<rparr>]"
  by (simp add: getSceneJSON_def entryOf_def sceneBlack_objects colorOf_def materialColor_def
      vec_def)

lemma sampleEngine_conversions [simp]:
  "quatFromEuler sampleEngine e = quat_identity"
  "eulerFromQuat sampleEngine q ord = vec 0 0 0"
  "applyQuaternion sampleEngine v q = v"
  by (simp_all add: sampleEngine_def)

lemma sceneBlack_reloaded:
  "objects (snd (loadSceneJSON sampleEngine (parseDump (getSceneJSON sceneBlack)) sceneBlack)) =
     [(''A'', \<lparr>o_id = 1, o_name = ''A'', o_type = ''Cube'',
              o_node = Mesh ''Cube'' SharedDefault,
              o_position = vec 0 0 0,
              o_rotation = \<lparr>ex = 0, ey = 0, ez = 0, eorder = XYZ\<rparr>,
              o_quaternion = quat_identity,
              o_scale = vec 1 1 1,
              o_parent = SceneRoot\<rparr>)]"
proof -
  have f: "map_of (objects (deleteAllObjects sceneBlack)) ''A'' = None"
    by (simp add: deleteAllObjects_objects)
  have n: "nextObjectId sceneBlack = 1" "cfg sceneBlack = \<lparr>shadows = 1, renderDistance = 100\<rparr>"
    by (simp_all add: sceneBlack_def setColor_def sceneCube_def build_defs
        split: option.splits node.splits)
  show ?thesis
    by (simp add: sceneBlack_dump parseDump_def itemOf_def loadSceneJSON_def loadItem_def
        Let_def createObject_fresh [OF f] deleteAllObjects_objects modifyObject_def
        loadPhysics_def n newNode_def sharedGeometryKeys_def setRotationXYZ_def vec_def
        update_conv')
qed

section \<open>Blocks that rewrite in place\<close>

lemma wellFormed_sameShape:
  assumes "wellFormed s" and "sameShape s t"
  shows "wellFormed t"
proof -
  have "fst ` set (objects t) = fst ` set (objects s)"
    using assms(2) by (metis sameShape_def set_map)
  then show ?thesis
    using assms by (auto simp: wellFormed_def sameShape_def bodiesHaveObjects_def list_all_iff)
qed

lemma sameShape_refl [simp]: "sameShape s s"
  by (simp add: sameShape_def)

lemma sameShape_trans: "sameShape s t \<Longrightarrow> sameShape t u \<Longrightarrow> sameShape s u"
  by (simp add: sameShape_def)

lemma sameShape_requestRender [simp]: "sameShape s (requestRender s)"
  by (simp add: sameShape_def)

lemma sameShape_requestRender_iff [simp]: "sameShape s (requestRender t) = sameShape s t"
  by (simp add: sameShape_def)

lemma update_known_keys:
  "map_of al k = Some v \<Longrightarrow> map fst (AList.update k v' al) = map fst al"
  by (simp add: update_keys) (metis map_of_eq_None_iff option.distinct(1) set_map)

lemma sameShape_putObject:
  "map_of (objects s) n = Some ob \<Longrightarrow> sameShape s (putObject n ob' s)"
  by (simp add: sameShape_def update_known_keys)

lemma updatePhysicsTransform_more [simp]:
  "nextBodyId (updatePhysicsTransform n s) = nextBodyId s"
  "(bodies (updatePhysicsTransform n s) i = None) = (bodies s i = None)"
  by (simp_all add: updatePhysicsTransform_def split: option.splits)

lemma sameShape_updatePhysicsTransform [simp]:
  "sameShape s (updatePhysicsTransform n t) = sameShape s t"
  by (simp add: sameShape_def)

lemma sameShape_put_sync:
  "map_of (objects s) n = Some ob \<Longrightarrow>
   sameShape s (requestRender (updatePhysicsTransform n (putObject n ob' s)))"
  by (simp add: sameShape_putObject)

lemma sameShape_euler_tmp [simp]: "sameShape s (t\<lparr>euler_tmp := e\<rparr>) = sameShape s t"
  by (simp add: sameShape_def)

lemma putObject_euler_tmp:
  "putObject n ob (s\<lparr>euler_tmp := e\<rparr>) = (putObject n ob s)\<lparr>euler_tmp := e\<rparr>"
  by (simp add: putObject_def)

lemma updatePhysicsTransform_euler_tmp:
  "updatePhysicsTransform n (s\<lparr>euler_tmp := e\<rparr>) = (updatePhysicsTransform n s)\<lparr>euler_tmp := e\<rparr>"
  by (simp add: updatePhysicsTransform_def split: option.splits)

lemma sameShape_setters:
  "sameShape s (setPos n x y z s)"
  "sameShape s (changePosition n x y z s)"
  "sameShape s (moveObject eng n x y z s)"
  "sameShape s (setRot eng n x y z s)"
  "sameShape s (setScale n x y z s)"
  by (simp_all add: setPos_def changePosition_def moveObject_def setRot_def setScale_def
      Let_def sameShape_putObject split: option.splits)

lemma sameShape_rotators:
  "sameShape s (changeRotation eng n x y z s)"
  "sameShape s (setRotYawPitch eng n yaw pitch s)"
  "sameShape s (lookAtObject eng n target s)"
  by (simp_all add: changeRotation_def setRotYawPitch_def lookAtObject_def Let_def
      putObject_euler_tmp sameShape_putObject split: option.splits)

lemma sameShape_setColor: "sameShape s (setColor n c s)"
  by (simp add: setColor_def sameShape_putObject split: option.splits node.splits)

lemma sameShape_pushObject: "sameShape s (pushObject eng n x y z s)"
  by (simp add: pushObject_def sameShape_def split: option.splits)

lemma sameShape_setPhysProp: "setPhysProp n prop val s = Inr t \<Longrightarrow> sameShape s t"
  by (auto simp: setPhysProp_def sameShape_def Let_def split: option.splits if_splits)

lemma sameShape_copyBack: "sameShape s (copyBack eng n s)"
  by (simp add: copyBack_def sameShape_putObject split: option.splits)

lemma sameShape_fold_copyBack: "sameShape s (fold (copyBack eng) ns s)"
proof (induction ns arbitrary: s)
  case Nil
  show ?case by simp
next
  case (Cons n ns)
  show ?case
    using sameShape_trans [OF sameShape_copyBack [of s eng n] Cons.IH [of "copyBack eng n s"]]
    by simp
qed

lemma sameShape_stepPhysics:
  assumes "solverKeepsBodies eng"
  shows "sameShape s (stepPhysics eng now s)"
proof (cases "lastPhysTime s = 0")
  case True
  then show ?thesis by (simp add: stepPhysics_def sameShape_def)
next
  case False
  let ?r = "worldStep eng (1 / 60) ((now - lastPhysTime s) / 1000) 10 (world s) (bodies s)"
  let ?s1 = "s\<lparr>lastPhysTime := now, world := fst ?r, bodies := snd ?r\<rparr>"
  have "sameShape s ?s1"
    using assms by (simp add: sameShape_def solverKeepsBodies_def)
  then have "sameShape s (fold (copyBack eng) (map fst (physicsBodies ?s1)) ?s1)"
    using sameShape_fold_copyBack by (rule sameShape_trans)
  then show ?thesis
    using False by (simp add: stepPhysics_def Let_def)
qed

lemma sameShape_setQualitySetting: "sameShape s (setQualitySetting setting val s)"
  by (simp add: setQualitySetting_def sameShape_def split_def comp_def)

lemma sameShape_animationFrame: "sameShape s (animationFrame s)"
  by (simp add: animationFrame_def sameShape_def)

lemma sameShape_modifyObject: "sameShape s (modifyObject n f s)"
  by (simp add: modifyObject_def sameShape_putObject split: option.splits)

section \<open>Blocks that add and remove\<close>

lemma list_all_remove1: "list_all P xs \<Longrightarrow> list_all P (remove1 x xs)"
  by (metis list_all_iff notin_set_remove1)

lemma keys_None: "map_of al k = None \<Longrightarrow> k \<notin> fst ` set al"
  by (simp add: map_of_eq_None_iff)

lemma wellFormed_requestRender [simp]: "wellFormed (requestRender s) = wellFormed s"
  by (simp add: wellFormed_def bodiesHaveObjects_def)

lemma wellFormed_dispose:
  assumes "wellFormed s"
  shows "wellFormed (disposeObject (Some old) name s)"
proof (cases "map_of (physicsBodies s) name")
  case None
  then have "name \<notin> fst ` set (physicsBodies s)"
    by (rule keys_None)
  then have "fst ` set (physicsBodies s) \<subseteq> fst ` set (objects s) - {name}"
    using assms by (auto simp: wellFormed_def bodiesHaveObjects_def)
  then show ?thesis
    using assms None
    by (simp add: disposeObject_def wellFormed_def bodiesHaveObjects_def keys_delete)
next
  case (Some i)
  have "fst ` set (physicsBodies s) - {name} \<subseteq> fst ` set (objects s) - {name}"
    using assms by (auto simp: wellFormed_def bodiesHaveObjects_def)
  then show ?thesis
    using assms Some
    by (simp add: disposeObject_def wellFormed_def bodiesHaveObjects_def keys_delete
        removeBody_def list_all_remove1 list_all_delete)
qed

lemma wellFormed_disposeByName: "wellFormed s \<Longrightarrow> wellFormed (disposeByName name s)"
  by (cases "map_of (objects s) name") (simp_all add: disposeByName_def wellFormed_dispose)

lemma wellFormed_fold_dispose: "wellFormed s \<Longrightarrow> wellFormed (fold disposeByName ks s)"
  by (induction ks arbitrary: s) (simp_all add: wellFormed_disposeByName)

lemma wellFormed_deleteObject: "wellFormed s \<Longrightarrow> wellFormed (deleteObject name s)"
  using wellFormed_disposeByName [of s name] by (simp add: deleteObject_def disposeByName_def)

lemma wellFormed_deleteAllObjects:
  assumes "wellFormed s"
  shows "wellFormed (deleteAllObjects s)"
proof -
  have "wellFormed (fold disposeByName (map fst (objects s)) s)"
    using assms by (rule wellFormed_fold_dispose)
  then show ?thesis
    by (simp add: deleteAllObjects_def wellFormed_def bodiesHaveObjects_def)
qed

lemma wellFormed_add_object:
  assumes "wellFormed s"
  shows "wellFormed (s\<lparr>objects := AList.update name ob (objects s), nextObjectId := n\<rparr>)"
  using assms by (auto simp: wellFormed_def bodiesHaveObjects_def dom_update)

lemma wellFormed_createObject:
  assumes "wellFormed s"
  shows "wellFormed (createObject type name s)"
proof -
  have "wellFormed (case map_of (objects s) name of
                      Some old \<Rightarrow> disposeObject (Some old) name s | None \<Rightarrow> s)"
    using assms by (simp add: wellFormed_dispose split: option.splits)
  then show ?thesis
    by (simp add: createObject_def Let_def wellFormed_add_object)
qed

lemma wellFormed_enablePhysics:
  assumes "wellFormed s"
  shows "wellFormed (enablePhysics name s)"
proof (cases "map_of (objects s) name")
  case None
  then show ?thesis using assms by (simp add: enablePhysics_def)
next
  case (Some ob)
  then have known: "name \<in> fst ` set (objects s)"
    by (metis map_of_eq_None_iff option.distinct(1))
  show ?thesis
  proof (cases "isMesh ob")
    case False
    then show ?thesis using assms Some by (simp add: enablePhysics_def)
  next
    case True
    define w where "w = (case map_of (physicsBodies s) name of
                           None \<Rightarrow> world s | Some j \<Rightarrow> removeBody j (world s))"
    have w1: "distinct (w_bodies w)" "list_all (\<lambda>i. i < nextBodyId s) (w_bodies w)"
      using assms
      by (simp_all add: w_def wellFormed_def removeBody_def list_all_remove1
          split: option.splits)
    then have fresh: "nextBodyId s \<notin> set (w_bodies w)"
      by (auto simp: list_all_iff)
    have w2: "list_all (\<lambda>i. i < Suc (nextBodyId s)) (w_bodies w)"
      using w1(2) by (auto simp: list_all_iff)
    have "list_all (\<lambda>p. snd p \<noteq> nextBodyId s \<longrightarrow> bodies s (snd p) \<noteq> None)
                  (AList.update name (nextBodyId s) (physicsBodies s))"
      using assms by (intro list_all_update) (auto simp: wellFormed_def list_all_iff)
    then have refs: "list_all (\<lambda>p. snd p \<noteq> nextBodyId s \<longrightarrow> (\<exists>y. bodies s (snd p) = Some y))
                  (AList.update name (nextBodyId s) (physicsBodies s))"
      by (simp add: list_all_iff)
    have keys: "fst ` set (AList.update name (nextBodyId s) (physicsBodies s))
                  \<subseteq> fst ` set (objects s)"
      using assms known by (auto simp: wellFormed_def bodiesHaveObjects_def dom_update)
    show ?thesis
      using Some True w1 w2 fresh refs keys
      by (simp add: enablePhysics_def Let_def wellFormed_def bodiesHaveObjects_def addBody_def
          w_def removeBody_def split: option.splits)
  qed
qed

lemma wellFormed_groupObjects:
  assumes "wellFormed s"
  shows "wellFormed (groupObjects child parent s)"
proof -
  have drop: "wellFormed (s\<lparr>world := removeBody i (world s),
                            physicsBodies := AList.delete child (physicsBodies s)\<rparr>)" for i
    using assms
    by (auto simp: wellFormed_def bodiesHaveObjects_def removeBody_def list_all_remove1
        list_all_delete keys_delete)
  have put: "wellFormed (putObject child ob t)" if "wellFormed t" for ob t
    using that by (auto simp: wellFormed_def bodiesHaveObjects_def dom_update)
  show ?thesis
    using assms drop put
    by (simp add: groupObjects_def Let_def split: option.splits)
qed

section \<open>Reachable states are well formed\<close>

lemma wellFormed_step:
  "solverKeepsBodies eng \<Longrightarrow> wellFormed s \<Longrightarrow> wellFormed (stepPhysics eng now s)"
  by (erule wellFormed_sameShape [OF _ sameShape_stepPhysics])

lemma wellFormed_exec:
  assumes "wellFormed s" and "exec eng c s = Inr t"
  shows "wellFormed t"
proof -
  note keep = wellFormed_sameShape [OF assms(1)]
  show ?thesis
  proof (cases c)
    case (SetPos n x y z)
    then show ?thesis using assms(2) keep sameShape_setters(1) by auto
  next
    case (ChangePosition n x y z)
    then show ?thesis using assms(2) keep sameShape_setters(2) by auto
  next
    case (MoveObject n x y z)
    then show ?thesis using assms(2) keep sameShape_setters(3) by auto
  next
    case (SetRot n x y z)
    then show ?thesis using assms(2) keep sameShape_setters(4) by auto
  next
    case (ChangeRotation n x y z)
    then show ?thesis using assms(2) keep sameShape_rotators(1) by auto
  next
    case (SetRotYawPitch n yaw pitch)
    then show ?thesis using assms(2) keep sameShape_rotators(2) by auto
  next
    case (LookAtObject n target)
    then show ?thesis using assms(2) keep sameShape_rotators(3) by auto
  next
    case (SetScale n x y z)
    then show ?thesis using assms(2) keep sameShape_setters(5) by auto
  next
    case (SetColor n col)
    then show ?thesis using assms(2) keep sameShape_setColor by auto
  next
    case (DeleteObject n)
    then show ?thesis using assms wellFormed_deleteObject by auto
  next
    case (EnablePhysics n)
    then show ?thesis using assms wellFormed_enablePhysics by auto
  next
    case (PushObject n x y z)
    then show ?thesis using assms(2) keep sameShape_pushObject by auto
  next
    case (SetPhysProp n p v)
    then show ?thesis using assms(2) keep sameShape_setPhysProp by auto
  qed
qed

lemma wellFormed_loadPhysics:
  assumes "wellFormed s"
  shows "wellFormed (snd (loadPhysics name ph s))"
proof -
  have e: "wellFormed (enablePhysics name s)"
    using assms by (rule wellFormed_enablePhysics)
  have "wellFormed t" if "setPhysProp name ''fixed'' 1 (enablePhysics name s) = Inr t" for t
    using e that by (rule wellFormed_sameShape [OF _ sameShape_setPhysProp])
  then show ?thesis
    using assms e by (auto simp: loadPhysics_def Let_def split: option.splits sum.splits)
qed

lemma wellFormed_modifyObject: "wellFormed s \<Longrightarrow> wellFormed (modifyObject n f s)"
  by (erule wellFormed_sameShape [OF _ sameShape_modifyObject])

lemma wellFormed_setColor: "wellFormed s \<Longrightarrow> wellFormed (setColor n c s)"
  by (erule wellFormed_sameShape [OF _ sameShape_setColor])

lemma wellFormed_loadItem:
  assumes "wellFormed s"
  shows "wellFormed (snd (loadItem eng it s))"
  using assms
  by (simp add: loadItem_def Let_def wellFormed_createObject wellFormed_modifyObject
      wellFormed_setColor wellFormed_loadPhysics split: option.splits)

lemma wellFormed_loadItems:
  "wellFormed s \<Longrightarrow> wellFormed (snd (loadItems eng its s))"
proof (induction its arbitrary: s)
  case Nil
  then show ?case by simp
next
  case (Cons it its)
  have "wellFormed (snd (loadItem eng it s))"
    using Cons.prems by (rule wellFormed_loadItem)
  then show ?case
    using Cons.IH [of "snd (loadItem eng it s)"]
    by (cases "loadItem eng it s") (auto split: option.splits)
qed

lemma wellFormed_load:
  assumes "wellFormed s"
  shows "wellFormed (snd (loadSceneJSON eng p s))"
proof (cases p)
  case ParseError
  then show ?thesis using assms by (simp add: loadSceneJSON_def)
next
  case NotIterable
  then show ?thesis using assms by (simp add: loadSceneJSON_def wellFormed_deleteAllObjects)
next
  case (Items its)
  have "wellFormed (snd (loadItems eng its (deleteAllObjects s)))"
    using assms by (intro wellFormed_loadItems wellFormed_deleteAllObjects)
  then show ?thesis
    using Items
    by (cases "loadItems eng its (deleteAllObjects s)")
       (auto simp: loadSceneJSON_def split: option.splits)
qed

lemma wellFormed_initState: "wellFormed initState"
  by (simp add: wellFormed_def bodiesHaveObjects_def initState_def)

text \<open>Every reachable state is well formed.\<close>

lemma reachable_wellFormed:
  assumes "solverKeepsBodies eng" and "reachable eng s"
  shows "wellFormed s"
  using assms(2)
proof (induction rule: reachable.induct)
  case r_init
  show ?case by (rule wellFormed_initState)
next
  case (r_create s type name)
  then show ?case by (simp add: wellFormed_createObject)
next
  case (r_command s c s')
  then show ?case by (auto intro: wellFormed_exec)
next
  case (r_deleteAll s)
  then show ?case by (simp add: wellFormed_deleteAllObjects)
next
  case (r_step s now)
  then show ?case using assms(1) by (simp add: wellFormed_step)
next
  case (r_group s child parent)
  then show ?case by (simp add: wellFormed_groupObjects)
next
  case (r_quality s setting val)
  then show ?case by (auto intro: wellFormed_sameShape sameShape_setQualitySetting)
next
  case (r_load s p)
  then show ?case by (simp add: wellFormed_load)
next
  case (r_frame s)
  then show ?case by (auto intro: wellFormed_sameShape sameShape_animationFrame)
qed

lemma wellFormed_unknown_body:
  "wellFormed s \<Longrightarrow> map_of (objects s) name = None \<Longrightarrow> map_of (physicsBodies s) name = None"
  by (auto simp: wellFormed_def bodiesHaveObjects_def map_of_eq_None_iff)

lemma wellFormed_linked:
  "wellFormed s \<Longrightarrow> map_of (physicsBodies s) name \<noteq> None \<Longrightarrow> linked s name"
proof -
  assume wf: "wellFormed s" and b: "map_of (physicsBodies s) name \<noteq> None"
  then obtain i where i: "map_of (physicsBodies s) name = Some i"
    by auto
  then have "(name, i) \<in> set (physicsBodies s)"
    by (rule map_of_SomeD)
  then have "bodies s i \<noteq> None" "name \<in> fst ` set (objects s)"
    using wf by (force simp: wellFormed_def bodiesHaveObjects_def list_all_iff)+
  then show "linked s name"
    using i by (auto simp: linked_def map_of_eq_None_iff split: option.splits)
qed

lemma sampleEngine_keeps: "solverKeepsBodies sampleEngine"
  by (auto simp: solverKeepsBodies_def sampleEngine_def)

lemma sceneA_wellFormed: "wellFormed sceneA"
  by (simp add: sceneA_def wellFormed_enablePhysics wellFormed_createObject wellFormed_initState)

section \<open>The round trip of a scene without black objects\<close>

lemma vec_eta [simp]: "vec (vx a) (vy a) (vz a) = a"
  by (simp add: vec_def)

lemma modifyObject_lookup:
  "map_of (objects t) k = Some ob \<Longrightarrow> map_of (objects (modifyObject k f t)) k = Some (f ob)"
  by (simp add: modifyObject_def update_conv')

lemma modifyObject_fields [simp]:
  "physicsBodies (modifyObject k f t) = physicsBodies t"
  "objectPhysData (modifyObject k f t) = objectPhysData t"
  "bodies (modifyObject k f t) = bodies t"
  "world (modifyObject k f t) = world t"
  "nextBodyId (modifyObject k f t) = nextBodyId t"
  "cfg (modifyObject k f t) = cfg t"
  by (simp_all add: modifyObject_def split: option.splits)

lemma modifyObject_keys [simp]: "map fst (objects (modifyObject k f t)) = map fst (objects t)"
  using sameShape_modifyObject [of t k f] by (simp add: sameShape_def)

lemma modifyObject_other:
  "k' \<noteq> k \<Longrightarrow> map_of (objects (modifyObject k f t)) k' = map_of (objects t) k'"
  by (simp add: modifyObject_def update_conv' split: option.splits)

text \<open>The node after \<open>setColor\<close>.\<close>

lemma setColor_lookup:
  "map_of (objects t) k = Some ob \<Longrightarrow>
   map_of (objects (setColor k c t)) k =
     Some (case o_node ob of
             Mesh g m \<Rightarrow> ob\<lparr>o_node := Mesh g (PrivateClone c)\<rparr>
           | PointLight c0 i d \<Rightarrow> ob\<lparr>o_node := PointLight c i d\<rparr>
           | PerspectiveCamera f r \<Rightarrow> ob)"
  by (simp add: setColor_def update_conv' split: node.splits)

lemma setColor_fields [simp]:
  "physicsBodies (setColor k c t) = physicsBodies t"
  "objectPhysData (setColor k c t) = objectPhysData t"
  "bodies (setColor k c t) = bodies t"
  "world (setColor k c t) = world t"
  "nextBodyId (setColor k c t) = nextBodyId t"
  by (simp_all add: setColor_def split: option.splits node.splits)

lemma setColor_keys [simp]: "map fst (objects (setColor k c t)) = map fst (objects t)"
  using sameShape_setColor [of t k c] by (simp add: sameShape_def)

lemma setColor_other:
  "k' \<noteq> k \<Longrightarrow> map_of (objects (setColor k c t)) k' = map_of (objects t) k'"
  by (simp add: setColor_def update_conv' split: option.splits node.splits)

text \<open>The object of an element of the dump, before its physics is loaded.\<close>

lemma newNode_kind:
  "nodeMatchesType ob \<Longrightarrow>
   (case o_node ob of
      Mesh g m \<Rightarrow> \<exists>g'. newNode c (dumpType ob) = Mesh g' SharedDefault
    | PointLight c0 i d \<Rightarrow> newNode c (dumpType ob) = PointLight 0xffffff 1 100
    | PerspectiveCamera f r \<Rightarrow> newNode c (dumpType ob) = PerspectiveCamera 75 (renderDistance c))"
  by (auto simp: nodeMatchesType_def newNode_def dumpType_def sharedGeometryKeys_def
      split: node.splits)


lemma createObject_fresh_lookup:
  assumes "map_of (objects t) k = None"
  shows "map_of (objects (createObject type k t)) k =
           Some \<lparr>o_id = nextObjectId t, o_name = k, o_type = type,
                 o_node = newNode (cfg t) type,
                 o_position = vec 0 0 0,
                 o_rotation = \<lparr>ex = 0, ey = 0, ez = 0, eorder = XYZ\<rparr>,
                 o_quaternion = quat_identity,
                 o_scale = vec 1 1 1,
                 o_parent = SceneRoot\<rparr>"
    and "k' \<noteq> k \<Longrightarrow> map_of (objects (createObject type k t)) k' = map_of (objects t) k'"
    and "map fst (objects (createObject type k t)) = map fst (objects t) @ [k]"
    and "nextBodyId (createObject type k t) = nextBodyId t"
proof -
  show "map_of (objects (createObject type k t)) k =
           Some \<lparr>o_id = nextObjectId t, o_name = k, o_type = type,
                 o_node = newNode (cfg t) type,
                 o_position = vec 0 0 0,
                 o_rotation = \<lparr>ex = 0, ey = 0, ez = 0, eorder = XYZ\<rparr>,
                 o_quaternion = quat_identity,
                 o_scale = vec 1 1 1,
                 o_parent = SceneRoot\<rparr>"
    using assms by (simp add: createObject_def Let_def update_conv')
  show "k' \<noteq> k \<Longrightarrow> map_of (objects (createObject type k t)) k' = map_of (objects t) k'"
    using assms by (simp add: createObject_def Let_def update_conv')
  show "map fst (objects (createObject type k t)) = map fst (objects t) @ [k]"
    using assms by (simp add: createObject_def Let_def update_fresh)
  show "nextBodyId (createObject type k t) = nextBodyId t"
    using assms by (simp add: createObject_def Let_def)
qed

lemma recolored:
  assumes "nodeMatchesType ob" and "colorOf ob \<noteq> 0"
    and "o_node ob0 = newNode c (dumpType ob)"
  shows "(case o_node ob0 of
            Mesh g m \<Rightarrow> colorOf (ob0\<lparr>o_node := Mesh g (PrivateClone (colorOf ob))\<rparr>) = colorOf ob \<and>
                        isMesh (ob0\<lparr>o_node := Mesh g (PrivateClone (colorOf ob))\<rparr>) = isMesh ob
          | PointLight c0 i d \<Rightarrow>
              colorOf (ob0\<lparr>o_node := PointLight (colorOf ob) i d\<rparr>) = colorOf ob \<and>
              isMesh (ob0\<lparr>o_node := PointLight (colorOf ob) i d\<rparr>) = isMesh ob
          | PerspectiveCamera f r \<Rightarrow> colorOf ob0 = colorOf ob \<and> isMesh ob0 = isMesh ob)"
  using newNode_kind [OF assms(1), of c] assms(3)
  by (cases "o_node ob") (auto simp: colorOf_def isMesh_def materialColor_def)


lemma vec_sel [simp]: "vx (vec a b c) = a" "vy (vec a b c) = b" "vz (vec a b c) = c"
  by (simp_all add: vec_def)

lemma createObject_fresh_frame:
  assumes "map_of (objects t) k = None"
  shows "physicsBodies (createObject type k t) = physicsBodies t"
    and "objectPhysData (createObject type k t) = objectPhysData t"
    and "bodies (createObject type k t) = bodies t"
    and "world (createObject type k t) = world t"
  using assms by (simp_all add: createObject_def Let_def)

lemma eulerAngles_simps [simp]:
  "eulerAngles (setRotationXYZ eng x y z ob) = vec x y z"
  "eulerAngles (ob\<lparr>o_scale := v\<rparr>) = eulerAngles ob"
  "eulerAngles (ob\<lparr>o_position := v\<rparr>) = eulerAngles ob"
  "eulerAngles (ob\<lparr>o_node := n\<rparr>) = eulerAngles ob"
  by (simp_all add: eulerAngles_def)

lemma loadItem_unfold:
  assumes "map_of (objects (createObject (i_type it) (i_name it) t)) (i_name it) = Some ob0"
    and "i_pos it = Some p" and "i_rot it = Some r" and "i_scale it = Some sc"
    and "i_color it = Some c" and "c \<noteq> 0"
  shows "loadItem eng it t =
           loadPhysics (i_name it) (i_physics it)
             (setColor (i_name it) c
               (modifyObject (i_name it) (\<lambda>ob. ob\<lparr>o_scale := vec (vx sc) (vy sc) (vz sc)\<rparr>)
                 (modifyObject (i_name it) (setRotationXYZ eng (vx r) (vy r) (vz r))
                   (modifyObject (i_name it) (\<lambda>ob. ob\<lparr>o_position := vec (vx p) (vy p) (vz p)\<rparr>)
                     (createObject (i_type it) (i_name it) t)))))"
  using assms by (simp add: loadItem_def Let_def)

lemma itemOf_entryOf [simp]:
  "i_name (itemOf (entryOf s k ob)) = k"
  "i_type (itemOf (entryOf s k ob)) = dumpType ob"
  "i_pos (itemOf (entryOf s k ob)) = Some (o_position ob)"
  "i_rot (itemOf (entryOf s k ob)) = Some (eulerAngles ob)"
  "i_scale (itemOf (entryOf s k ob)) = Some (o_scale ob)"
  "i_color (itemOf (entryOf s k ob)) = Some (colorOf ob)"
  "i_physics (itemOf (entryOf s k ob)) = map_of (objectPhysData s) k"
  by (simp_all add: itemOf_def entryOf_def dumpType_def eulerAngles_def)

lemma loadItem_visual:
  assumes fresh: "map_of (objects t) k = None"
    and nm: "nodeMatchesType ob" and col: "colorOf ob \<noteq> 0"
  shows "\<exists>v. loadItem eng (itemOf (entryOf s k ob)) t
                = loadPhysics k (map_of (objectPhysData s) k) v \<and>
             map fst (objects v) = map fst (objects t) @ [k] \<and>
             physicsBodies v = physicsBodies t \<and> objectPhysData v = objectPhysData t \<and>
             bodies v = bodies t \<and> world v = world t \<and> nextBodyId v = nextBodyId t \<and>
             (\<forall>k'. k' \<noteq> k \<longrightarrow> map_of (objects v) k' = map_of (objects t) k') \<and>
             (\<exists>ob'. map_of (objects v) k = Some ob' \<and>
                    o_position ob' = o_position ob \<and> o_scale ob' = o_scale ob \<and>
                    eulerAngles ob' = eulerAngles ob \<and> colorOf ob' = colorOf ob \<and>
                    isMesh ob' = isMesh ob)"
proof -
  define ob0 where "ob0 =
     \<lparr>o_id = nextObjectId t, o_name = k, o_type = dumpType ob,
      o_node = newNode (cfg t) (dumpType ob),
      o_position = vec 0 0 0,
      o_rotation = \<lparr>ex = 0, ey = 0, ez = 0, eorder = XYZ\<rparr>,
      o_quaternion = quat_identity,
      o_scale = vec 1 1 1,
      o_parent = SceneRoot\<rparr>"
  define f1 :: "obj \<Rightarrow> obj" where "f1 = (\<lambda>o'. o'\<lparr>o_position := o_position ob\<rparr>)"
  define f2 where "f2 = setRotationXYZ eng (vx (eulerAngles ob)) (vy (eulerAngles ob)) (vz (eulerAngles ob))"
  define f3 :: "obj \<Rightarrow> obj" where "f3 = (\<lambda>o'. o'\<lparr>o_scale := o_scale ob\<rparr>)"
  define s1 where "s1 = createObject (dumpType ob) k t"
  define s2 where "s2 = modifyObject k f1 s1"
  define s3 where "s3 = modifyObject k f2 s2"
  define s4 where "s4 = modifyObject k f3 s3"
  define v where "v = setColor k (colorOf ob) s4"
  define ob4 where "ob4 = f3 (f2 (f1 ob0))"
  have l1: "map_of (objects s1) k = Some ob0"
    unfolding s1_def ob0_def by (rule createObject_fresh_lookup(1) [OF fresh])
  have l4: "map_of (objects s4) k = Some ob4"
    unfolding s4_def s3_def s2_def ob4_def by (intro modifyObject_lookup l1)
  have eq: "loadItem eng (itemOf (entryOf s k ob)) t
              = loadPhysics k (map_of (objectPhysData s) k) v"
    using loadItem_unfold [of "itemOf (entryOf s k ob)" t ob0 "o_position ob" "eulerAngles ob"
        "o_scale ob" "colorOf ob" eng] l1 col
    by (simp add: s1_def s2_def s3_def s4_def v_def f1_def f2_def f3_def)
  have keys: "map fst (objects v) = map fst (objects t) @ [k]"
    by (simp add: v_def s4_def s3_def s2_def s1_def createObject_fresh_lookup(3) [OF fresh])
  have frame: "physicsBodies v = physicsBodies t" "objectPhysData v = objectPhysData t"
    "bodies v = bodies t" "world v = world t" "nextBodyId v = nextBodyId t"
    by (simp_all add: v_def s4_def s3_def s2_def s1_def createObject_fresh_frame [OF fresh]
        createObject_fresh_lookup(4) [OF fresh])
  have other: "map_of (objects v) k' = map_of (objects t) k'" if "k' \<noteq> k" for k'
    using that
    by (simp add: v_def s4_def s3_def s2_def s1_def setColor_other modifyObject_other
        createObject_fresh_lookup(2) [OF fresh])
  have n4: "o_node ob4 = newNode (cfg t) (dumpType ob)"
    by (simp add: ob4_def f3_def f2_def f1_def ob0_def)
  have p4: "o_position ob4 = o_position ob" "o_scale ob4 = o_scale ob"
    "eulerAngles ob4 = eulerAngles ob"
    by (simp_all add: ob4_def f3_def f2_def f1_def ob0_def)
  have "\<exists>ob'. map_of (objects v) k = Some ob' \<and>
              o_position ob' = o_position ob \<and> o_scale ob' = o_scale ob \<and>
              eulerAngles ob' = eulerAngles ob \<and> colorOf ob' = colorOf ob \<and>
              isMesh ob' = isMesh ob"
    using recolored [OF nm col n4] p4
    by (cases "o_node ob4") (simp_all add: v_def setColor_lookup [OF l4])
  then show ?thesis
    using eq keys frame other by blast
qed


lemma unlinked_fields:
  "physicsBodies (case map_of (physicsBodies v) k of
                    None \<Rightarrow> v
                  | Some j \<Rightarrow> v\<lparr>world := removeBody j (world v),
                                bodyToName := AList.delete j (bodyToName v)\<rparr>) = physicsBodies v"
  "objectPhysData (case map_of (physicsBodies v) k of
                    None \<Rightarrow> v
                  | Some j \<Rightarrow> v\<lparr>world := removeBody j (world v),
                                bodyToName := AList.delete j (bodyToName v)\<rparr>) = objectPhysData v"
  "bodies (case map_of (physicsBodies v) k of
                    None \<Rightarrow> v
                  | Some j \<Rightarrow> v\<lparr>world := removeBody j (world v),
                                bodyToName := AList.delete j (bodyToName v)\<rparr>) = bodies v"
  "nextBodyId (case map_of (physicsBodies v) k of
                    None \<Rightarrow> v
                  | Some j \<Rightarrow> v\<lparr>world := removeBody j (world v),
                                bodyToName := AList.delete j (bodyToName v)\<rparr>) = nextBodyId v"
  by (simp_all split: option.splits)

lemma enablePhysics_mesh_fields:
  assumes "map_of (objects v) k = Some ob'" and "isMesh ob'"
  shows "physicsBodies (enablePhysics k v) = AList.update k (nextBodyId v) (physicsBodies v)"
    and "objectPhysData (enablePhysics k v) =
           AList.update k \<lparr>pd_enabled = True, pd_mass = 1, pd_fixed = False,
                           pd_friction = 3 / 10, pd_bounciness = 3 / 10\<rparr> (objectPhysData v)"
    and "\<exists>b. bodies (enablePhysics k v) = (bodies v)(nextBodyId v \<mapsto> b)"
proof -
  show "physicsBodies (enablePhysics k v) = AList.update k (nextBodyId v) (physicsBodies v)"
    using assms by (simp add: enablePhysics_def Let_def unlinked_fields)
  show "objectPhysData (enablePhysics k v) =
           AList.update k \<lparr>pd_enabled = True, pd_mass = 1, pd_fixed = False,
                           pd_friction = 3 / 10, pd_bounciness = 3 / 10\<rparr> (objectPhysData v)"
    using assms by (simp add: enablePhysics_def Let_def unlinked_fields)
  have "bodies (enablePhysics k v) =
          (bodies v)(nextBodyId v \<mapsto>
             \<lparr>b_id = nextBodyId v, b_name = k, b_mass = 1, b_type = DYNAMIC,
              b_material = DefaultPhysMaterial,
              b_linearDamping = 1 / 100, b_angularDamping = 1 / 100,
              b_position = o_position ob',
              b_quaternion = o_quaternion ob',
              b_velocity = vec 0 0 0, b_angularVelocity = vec 0 0 0,
              b_shapes = shapesFor (if o_type ob' = [] then ''Cube'' else o_type ob') (o_scale ob'),
              b_awake = True\<rparr>)"
    using assms by (simp add: enablePhysics_def Let_def unlinked_fields)
  then show "\<exists>b. bodies (enablePhysics k v) = (bodies v)(nextBodyId v \<mapsto> b)"
    by blast
qed

lemma enablePhysics_idle:
  "map_of (objects v) k = None \<Longrightarrow> enablePhysics k v = v"
  by (simp add: enablePhysics_def)

lemma enablePhysics_mesh:
  assumes "map_of (objects v) k = Some ob'" and "isMesh ob'"
  shows "map_of (physicsBodies (enablePhysics k v)) k = Some (nextBodyId v)"
    and "bodies (enablePhysics k v) (nextBodyId v) \<noteq> None"
    and "map_of (objectPhysData (enablePhysics k v)) k =
           Some \<lparr>pd_enabled = True, pd_mass = 1, pd_fixed = False,
                 pd_friction = 3 / 10, pd_bounciness = 3 / 10\<rparr>"
  using enablePhysics_mesh_fields [OF assms] by (auto simp: update_conv')

lemma enablePhysics_not_mesh:
  "map_of (objects v) k = Some ob' \<Longrightarrow> \<not> isMesh ob' \<Longrightarrow> enablePhysics k v = v"
  by (simp add: enablePhysics_def)

lemma enablePhysics_frame:
  "k' \<noteq> k \<Longrightarrow> map_of (physicsBodies (enablePhysics k v)) k' = map_of (physicsBodies v) k'"
  "k' \<noteq> k \<Longrightarrow> map_of (objectPhysData (enablePhysics k v)) k' = map_of (objectPhysData v) k'"
  "bodies v i = Some y \<Longrightarrow> \<exists>y'. bodies (enablePhysics k v) i = Some y'"
proof -
  consider "map_of (objects v) k = None"
    | ob' where "map_of (objects v) k = Some ob'" "\<not> isMesh ob'"
    | ob' where "map_of (objects v) k = Some ob'" "isMesh ob'"
    by (cases "map_of (objects v) k") auto
  note cases3 = this
  show "k' \<noteq> k \<Longrightarrow> map_of (physicsBodies (enablePhysics k v)) k' = map_of (physicsBodies v) k'"
    using cases3
    by cases (simp_all add: enablePhysics_idle enablePhysics_not_mesh
        enablePhysics_mesh_fields update_conv')
  show "k' \<noteq> k \<Longrightarrow> map_of (objectPhysData (enablePhysics k v)) k' = map_of (objectPhysData v) k'"
    using cases3
    by cases (simp_all add: enablePhysics_idle enablePhysics_not_mesh
        enablePhysics_mesh_fields update_conv')
  show "bodies v i = Some y \<Longrightarrow> \<exists>y'. bodies (enablePhysics k v) i = Some y'"
    using cases3
  proof cases
    case 3
    then obtain b where "bodies (enablePhysics k v) = (bodies v)(nextBodyId v \<mapsto> b)"
      using enablePhysics_mesh_fields(3) by blast
    moreover assume "bodies v i = Some y"
    ultimately show ?thesis by simp
  qed (simp_all add: enablePhysics_idle enablePhysics_not_mesh)
qed

lemma setPhysProp_fixed:
  assumes "map_of (physicsBodies e) k = Some i" and "bodies e i = Some b"
    and "map_of (objectPhysData e) k = Some pd0"
  shows "\<exists>w. setPhysProp k ''fixed'' 1 e = Inr w \<and> objects w = objects e \<and>
             physicsBodies w = physicsBodies e \<and>
             map_of (objectPhysData w) k = Some (pd0\<lparr>pd_fixed := True\<rparr>) \<and>
             (\<forall>k'. k' \<noteq> k \<longrightarrow> map_of (objectPhysData w) k' = map_of (objectPhysData e) k') \<and>
             (\<forall>j y. bodies e j = Some y \<longrightarrow> (\<exists>y'. bodies w j = Some y'))"
  using assms by (simp add: setPhysProp_def Let_def update_conv')

lemma setPhysProp_no_body:
  "map_of (physicsBodies e) k = None \<Longrightarrow> setPhysProp k prop val e = Inr e"
  by (simp add: setPhysProp_def)

lemma loadPhysics_result:
  assumes nb: "map_of (physicsBodies v) k = None"
    and obv: "map_of (objects v) k = Some ob'"
  shows "\<exists>w. loadPhysics k ph v = (None, w) \<and> objects w = objects v \<and>
             (\<forall>k'. k' \<noteq> k \<longrightarrow> map_of (physicsBodies w) k' = map_of (physicsBodies v) k' \<and>
                               map_of (objectPhysData w) k' = map_of (objectPhysData v) k') \<and>
             (\<forall>i y. bodies v i = Some y \<longrightarrow> (\<exists>y'. bodies w i = Some y')) \<and>
             (\<forall>pd. ph = Some pd \<and> pd_enabled pd \<and> isMesh ob' \<longrightarrow>
                   linked w k \<and>
                   map_option pd_fixed (map_of (objectPhysData w) k) = Some (pd_fixed pd))"
proof (cases ph)
  case None
  then show ?thesis by (simp add: loadPhysics_def)
next
  case (Some pd)
  show ?thesis
  proof (cases "pd_enabled pd")
    case False
    then show ?thesis using Some by (simp add: loadPhysics_def)
  next
    case True
    show ?thesis
    proof (cases "isMesh ob'")
      case False
      then have "enablePhysics k v = v"
        using obv by (simp add: enablePhysics_not_mesh)
      then show ?thesis
        using Some True False nb by (simp add: loadPhysics_def Let_def setPhysProp_no_body)
    next
      case mesh: True
      let ?e = "enablePhysics k v"
      note m = enablePhysics_mesh [OF obv mesh]
      obtain b where b: "bodies ?e (nextBodyId v) = Some b"
        using m(2) by auto
      have le: "linked ?e k"
        using obv m(1) b by (simp add: linked_def)
      show ?thesis
      proof (cases "pd_fixed pd")
        case False
        have "loadPhysics k ph v = (None, ?e)"
          using Some True False by (simp add: loadPhysics_def Let_def)
        moreover have "\<forall>i y. bodies v i = Some y \<longrightarrow> (\<exists>y'. bodies ?e i = Some y')"
          using enablePhysics_frame(3) [of v _ _ k] by blast
        ultimately show ?thesis
          using Some False le m(3) by (simp add: enablePhysics_frame(1,2))
      next
        case fixed: True
        obtain w where w: "setPhysProp k ''fixed'' 1 ?e = Inr w" "objects w = objects ?e"
          "physicsBodies w = physicsBodies ?e"
          "map_of (objectPhysData w) k =
             Some (\<lparr>pd_enabled = True, pd_mass = 1, pd_fixed = False,
                    pd_friction = 3 / 10, pd_bounciness = 3 / 10\<rparr>\<lparr>pd_fixed := True\<rparr>)"
          "\<forall>k'. k' \<noteq> k \<longrightarrow> map_of (objectPhysData w) k' = map_of (objectPhysData ?e) k'"
          "\<forall>j y. bodies ?e j = Some y \<longrightarrow> (\<exists>y'. bodies w j = Some y')"
          using setPhysProp_fixed [OF m(1) b m(3)] by blast
        have lw: "linked w k"
          using obv m(1) b w(2,3,6) by (auto simp: linked_def)
        have "loadPhysics k ph v = (None, w)"
          using Some True fixed w(1) by (simp add: loadPhysics_def Let_def)
        moreover have "\<forall>i y. bodies v i = Some y \<longrightarrow> (\<exists>y'. bodies w i = Some y')"
          using w(6) enablePhysics_frame(3) [of v _ _ k] by blast
        ultimately show ?thesis
          using Some fixed lw w(2,3,4,5) by (simp add: enablePhysics_frame(1,2))
      qed
    qed
  qed
qed


lemma loadItem_entry:
  assumes fresh: "map_of (objects t) k = None"
    and nb: "map_of (physicsBodies t) k = None"
    and nm: "nodeMatchesType ob" and col: "colorOf ob \<noteq> 0"
  shows "\<exists>w. loadItem eng (itemOf (entryOf s k ob)) t = (None, w) \<and>
             map fst (objects w) = map fst (objects t) @ [k] \<and>
             (\<forall>k'. k' \<noteq> k \<longrightarrow> kept t w k') \<and>
             (\<forall>i y. bodies t i = Some y \<longrightarrow> (\<exists>y'. bodies w i = Some y')) \<and>
             reproduces w k ob (map_of (objectPhysData s) k)"
proof -
  obtain v ob' where v:
    "loadItem eng (itemOf (entryOf s k ob)) t = loadPhysics k (map_of (objectPhysData s) k) v"
    "map fst (objects v) = map fst (objects t) @ [k]"
    "physicsBodies v = physicsBodies t" "objectPhysData v = objectPhysData t"
    "bodies v = bodies t"
    "\<forall>k'. k' \<noteq> k \<longrightarrow> map_of (objects v) k' = map_of (objects t) k'"
    and ob': "map_of (objects v) k = Some ob'"
    "o_position ob' = o_position ob" "o_scale ob' = o_scale ob"
    "eulerAngles ob' = eulerAngles ob" "colorOf ob' = colorOf ob" "isMesh ob' = isMesh ob"
    using loadItem_visual [OF fresh nm col, of eng s] by blast
  have nbv: "map_of (physicsBodies v) k = None"
    using nb v(3) by simp
  obtain w where w: "loadPhysics k (map_of (objectPhysData s) k) v = (None, w)"
    "objects w = objects v"
    "\<forall>k'. k' \<noteq> k \<longrightarrow> map_of (physicsBodies w) k' = map_of (physicsBodies v) k' \<and>
                      map_of (objectPhysData w) k' = map_of (objectPhysData v) k'"
    "\<forall>i y. bodies v i = Some y \<longrightarrow> (\<exists>y'. bodies w i = Some y')"
    "\<forall>pd. map_of (objectPhysData s) k = Some pd \<and> pd_enabled pd \<and> isMesh ob' \<longrightarrow>
          linked w k \<and> map_option pd_fixed (map_of (objectPhysData w) k) = Some (pd_fixed pd)"
    using loadPhysics_result [OF nbv ob'(1), of "map_of (objectPhysData s) k"] by blast
  have "reproduces w k ob (map_of (objectPhysData s) k)"
    using ob' w(2,5) by (auto simp: reproduces_def split: option.splits)
  moreover have "\<forall>k'. k' \<noteq> k \<longrightarrow> kept t w k'"
    using v(3,4,6) w(2,3) by (simp add: kept_def)
  ultimately show ?thesis
    using v(1,2,5) w(1,2,4) by simp
qed

lemma reproduces_kept:
  assumes "reproduces t k ob ph" and "kept t w k"
    and "\<forall>i y. bodies t i = Some y \<longrightarrow> (\<exists>y'. bodies w i = Some y')"
  shows "reproduces w k ob ph"
proof -
  have "linked w k" if "linked t k"
    using that assms(2,3) by (auto simp: linked_def kept_def split: option.splits)
  then show ?thesis
    using assms(1,2) by (auto simp: reproduces_def kept_def split: option.splits if_splits)
qed

lemma kept_trans: "kept s t k \<Longrightarrow> kept t u k \<Longrightarrow> kept s u k"
  by (simp add: kept_def)


lemma loadItems_entries:
  assumes "distinct (map fst es)"
    and "\<forall>p \<in> set es. nodeMatchesType (snd p) \<and> colorOf (snd p) \<noteq> 0"
    and "wellFormed t"
    and "\<forall>p \<in> set es. map_of (objects t) (fst p) = None"
  shows "\<exists>w. loadItems eng (map (\<lambda>p. itemOf (entryOf s (fst p) (snd p))) es) t = (None, w) \<and>
             map fst (objects w) = map fst (objects t) @ map fst es \<and>
             (\<forall>k. k \<notin> fst ` set es \<longrightarrow> kept t w k) \<and>
             (\<forall>i y. bodies t i = Some y \<longrightarrow> (\<exists>y'. bodies w i = Some y')) \<and>
             (\<forall>p \<in> set es. reproduces w (fst p) (snd p) (map_of (objectPhysData s) (fst p)))"
  using assms
proof (induction es arbitrary: t)
  case Nil
  then show ?case by (simp add: kept_def)
next
  case (Cons p es)
  obtain k ob where p: "p = (k, ob)"
    by (cases p)
  have fresh: "map_of (objects t) k = None"
    using Cons.prems(4) p by simp
  have nb: "map_of (physicsBodies t) k = None"
    using Cons.prems(3) fresh by (rule wellFormed_unknown_body)
  have good: "nodeMatchesType ob" "colorOf ob \<noteq> 0"
    using Cons.prems(2) p by simp_all
  obtain u where u: "loadItem eng (itemOf (entryOf s k ob)) t = (None, u)"
    "map fst (objects u) = map fst (objects t) @ [k]"
    "\<forall>k'. k' \<noteq> k \<longrightarrow> kept t u k'"
    "\<forall>i y. bodies t i = Some y \<longrightarrow> (\<exists>y'. bodies u i = Some y')"
    "reproduces u k ob (map_of (objectPhysData s) k)"
    using loadItem_entry [OF fresh nb good, of eng s] by blast
  have wu: "wellFormed u"
    using wellFormed_loadItem [OF Cons.prems(3), of eng "itemOf (entryOf s k ob)"] u(1) by simp
  have notin: "k \<notin> fst ` set es"
    using Cons.prems(1) p by simp
  have fresh_u: "\<forall>q \<in> set es. map_of (objects u) (fst q) = None"
  proof
    fix q assume q: "q \<in> set es"
    then have "fst q \<noteq> k"
      using notin by auto
    then have "kept t u (fst q)"
      using u(3) by blast
    then show "map_of (objects u) (fst q) = None"
      using Cons.prems(4) q by (simp add: kept_def)
  qed
  obtain w where w:
    "loadItems eng (map (\<lambda>p. itemOf (entryOf s (fst p) (snd p))) es) u = (None, w)"
    "map fst (objects w) = map fst (objects u) @ map fst es"
    "\<forall>k. k \<notin> fst ` set es \<longrightarrow> kept u w k"
    "\<forall>i y. bodies u i = Some y \<longrightarrow> (\<exists>y'. bodies w i = Some y')"
    "\<forall>p \<in> set es. reproduces w (fst p) (snd p) (map_of (objectPhysData s) (fst p))"
    using Cons.IH [of u] Cons.prems(1,2) wu fresh_u by auto
  have 1: "loadItems eng (map (\<lambda>p. itemOf (entryOf s (fst p) (snd p))) (p # es)) t = (None, w)"
    using u(1) w(1) p by simp
  have 2: "map fst (objects w) = map fst (objects t) @ map fst (p # es)"
    using u(2) w(2) p by simp
  have 3: "\<forall>k'. k' \<notin> fst ` set (p # es) \<longrightarrow> kept t w k'"
  proof (intro allI impI)
    fix k' assume "k' \<notin> fst ` set (p # es)"
    then have "k' \<noteq> k" "k' \<notin> fst ` set es"
      using p by auto
    then have "kept t u k'" "kept u w k'"
      using u(3) w(3) by blast+
    then show "kept t w k'"
      by (rule kept_trans)
  qed
  have 4: "\<forall>i y. bodies t i = Some y \<longrightarrow> (\<exists>y'. bodies w i = Some y')"
    using u(4) w(4) by blast
  have "kept u w k"
    using w(3) notin by blast
  with u(5) have "reproduces w k ob (map_of (objectPhysData s) k)"
    using w(4) by (rule reproduces_kept)
  then have 5: "\<forall>q \<in> set (p # es).
                  reproduces w (fst q) (snd q) (map_of (objectPhysData s) (fst q))"
    using w(5) p by simp
  show ?case
    using 1 2 3 4 5 by blast
qed

text \<open>
  The round trip, for a well-formed scene with distinct names in which every node agrees
  with its type and no mesh or light is black: the load of the dump does not fail, the
  names come back in the same order, and every object is reproduced.
\<close>

lemma roundtrip_unless_black:
  assumes "wellFormed s" and "distinct (map fst (objects s))"
    and "\<forall>p \<in> set (objects s). nodeMatchesType (snd p) \<and> colorOf (snd p) \<noteq> 0"
  shows "fst (loadSceneJSON eng (parseDump (getSceneJSON s)) s) = False \<and>
         map fst (objects (snd (loadSceneJSON eng (parseDump (getSceneJSON s)) s)))
           = map fst (objects s) \<and>
         (\<forall>p \<in> set (objects s).
            reproduces (snd (loadSceneJSON eng (parseDump (getSceneJSON s)) s)) (fst p) (snd p)
              (map_of (objectPhysData s) (fst p)))"
proof -
  let ?t = "deleteAllObjects s"
  have items: "parseDump (getSceneJSON s) =
                 Items (map (\<lambda>p. itemOf (entryOf s (fst p) (snd p))) (objects s))"
    by (simp add: parseDump_def getSceneJSON_def split_def)
  have "wellFormed ?t"
    using assms(1) by (rule wellFormed_deleteAllObjects)
  moreover have "\<forall>p \<in> set (objects s). map_of (objects ?t) (fst p) = None"
    by (simp add: deleteAllObjects_objects)
  ultimately obtain w where w:
    "loadItems eng (map (\<lambda>p. itemOf (entryOf s (fst p) (snd p))) (objects s)) ?t = (None, w)"
    "map fst (objects w) = map fst (objects ?t) @ map fst (objects s)"
    "\<forall>p \<in> set (objects s). reproduces w (fst p) (snd p) (map_of (objectPhysData s) (fst p))"
    using loadItems_entries [OF assms(2,3), of ?t eng s] by blast
  have r: "loadSceneJSON eng (parseDump (getSceneJSON s)) s = (False, requestRender w)"
    using w(1) by (simp add: items loadSceneJSON_def)
  have "reproduces (requestRender w) k ob ph = reproduces w k ob ph" for k ob ph
    by (simp add: reproduces_def linked_def cong: option.case_cong)
  then show ?thesis
    using w(2,3) by (simp add: r deleteAllObjects_objects)
qed

text \<open>The cube with physics is such a scene, and it is reproduced.\<close>

lemma roundtrip_sceneA:
  "reproduces (snd (loadSceneJSON sampleEngine (parseDump (getSceneJSON sceneA)) sceneA)) ''A''
     cubeA (map_of (objectPhysData sceneA) ''A'')"
proof -
  have "objects sceneA = [(''A'', cubeA)]"
    by (simp add: sceneA_objects cubeA_def)
  moreover have "nodeMatchesType cubeA" "colorOf cubeA \<noteq> 0"
    by (simp_all add: nodeMatchesType_def colorOf_def materialColor_def cubeA_def)
  ultimately show ?thesis
    using roundtrip_unless_black [OF sceneA_wellFormed, of sampleEngine] by simp
qed

section \<open>Direct transform edits\<close>

text \<open>
  C1, as the code has it. For a name with an object and a body: after \<open>setPos\<close>,
  \<open>changePosition\<close>, \<open>moveObject\<close>, \<open>setRot\<close>, \<open>changeRotation\<close> and \<open>setRotYawPitch\<close>, and
  after \<open>lookAtObject\<close> when its target names an object, the body has the object's
  position and quaternion, and both its velocities are zero. \<open>lookAtObject\<close> with a target
  that names no object returns before it touches anything.
\<close>

theorem transform_setters_sync_body:
  assumes "linked s name"
  shows "synced (setPos name x y z s) name \<and>
         synced (changePosition name x y z s) name \<and>
         synced (moveObject eng name x y z s) name \<and>
         synced (setRot eng name x y z s) name \<and>
         synced (changeRotation eng name x y z s) name \<and>
         synced (setRotYawPitch eng name yaw pitch s) name \<and>
         (map_of (objects s) target \<noteq> None \<longrightarrow>
            synced (lookAtObject eng name target s) name) \<and>
         (map_of (objects s) target = None \<longrightarrow> lookAtObject eng name target s = s)"
proof -
  from assms obtain ob where ob: "map_of (objects s) name = Some ob"
    by (auto simp: linked_def split: option.splits)
  have 1: "synced (setPos name x y z s) name"
    using ob by (simp add: setPos_def put_then_sync [OF assms])
  have 2: "synced (changePosition name x y z s) name"
    using ob by (simp add: changePosition_def put_then_sync [OF assms])
  have 3: "synced (moveObject eng name x y z s) name"
    using ob by (simp add: moveObject_def Let_def put_then_sync [OF assms])
  have 4: "synced (setRot eng name x y z s) name"
    using ob by (simp add: setRot_def put_then_sync [OF assms])
  have 5: "synced (changeRotation eng name x y z s) name"
    using ob by (simp add: changeRotation_def Let_def put_then_sync [OF assms])
  have 6: "synced (setRotYawPitch eng name yaw pitch s) name"
    using ob by (simp add: setRotYawPitch_def Let_def put_then_sync [OF assms])
  have 7: "synced (lookAtObject eng name target s) name"
    if "map_of (objects s) target \<noteq> None"
    using ob that by (auto simp: lookAtObject_def Let_def put_then_sync [OF assms])
  have 8: "lookAtObject eng name target s = s" if "map_of (objects s) target = None"
    using that by (simp add: lookAtObject_def split: option.splits)
  show ?thesis
    using 1 2 3 4 5 6 7 8 by blast
qed

text \<open>The pushed cube, moved with \<open>setPos\<close> and turned towards an existing object.\<close>

theorem transform_setters_witness:
  "linked scenePushed ''A'' \<and> synced (setPos ''A'' 1 2 3 scenePushed) ''A'' \<and>
   map_of (objects scenePushed) ''A'' \<noteq> None \<and>
   synced (lookAtObject sampleEngine ''A'' ''A'' scenePushed) ''A''"
  using transform_setters_sync_body [OF scenePushed_linked, of 1 2 3 sampleEngine 0 0 "''A''"]
    scenePushed_linked
  by (simp add: scenePushed_fields sceneA_objects)

text \<open>
  C1 as stated fails for \<open>lookAtObject\<close>: the pushed cube has a body with velocity
  (0, 10, 0), and looking at a name that no object has leaves that velocity in place.
\<close>

theorem lookAt_unknown_target_counterexample:
  "linked scenePushed ''A'' \<and>
   \<not> synced (lookAtObject sampleEngine ''A'' ''Nobody'' scenePushed) ''A''"
  by (simp add: scenePushed_linked lookAtObject_def synced_def scenePushed_fields
      sceneA_objects scenePushed_body vec_def)

section \<open>Uniqueness of names\<close>



section \<open>The physics clock\<close>

text \<open>
  C3. The physics clock is 0 after construction and after \<open>deleteAllObjects\<close>. A step
  that finds the clock at 0 only stores the clock reading: it returns the state with
  \<open>lastPhysTime\<close> replaced, so no body, no object and nothing of the world changes. The
  step after it hands the solver the time between the two readings, in seconds. (The
  reading \<open>t1\<close> of the first step is not 0: \<open>performance.now()\<close> counts the
  milliseconds since the page started.)
\<close>

theorem first_step_records_clock_only:
  "lastPhysTime initState = 0 \<and> lastPhysTime (deleteAllObjects s0) = 0 \<and>
   (lastPhysTime s = 0 \<longrightarrow>
      stepPhysics eng t1 s = s\<lparr>lastPhysTime := t1\<rparr> \<and>
      bodies (stepPhysics eng t1 s) = bodies s \<and>
      objects (stepPhysics eng t1 s) = objects s \<and>
      world (stepPhysics eng t1 s) = world s \<and>
      (t1 \<noteq> 0 \<longrightarrow>
         world (stepPhysics eng t2 (stepPhysics eng t1 s)) =
           fst (worldStep eng (1 / 60) ((t2 - t1) / 1000) 10 (world s) (bodies s)) \<and>
         bodies (stepPhysics eng t2 (stepPhysics eng t1 s)) =
           snd (worldStep eng (1 / 60) ((t2 - t1) / 1000) 10 (world s) (bodies s)) \<and>
         lastPhysTime (stepPhysics eng t2 (stepPhysics eng t1 s)) = t2))"
proof -
  have a: "lastPhysTime initState = 0"
    by (simp add: initState_def)
  have b: "lastPhysTime (deleteAllObjects s0) = 0"
    by (simp add: deleteAllObjects_def)
  have c: "stepPhysics eng t1 s = s\<lparr>lastPhysTime := t1\<rparr>" if "lastPhysTime s = 0"
    using that by (rule stepPhysics_first)
  have d: "world (stepPhysics eng t2 (stepPhysics eng t1 s)) =
           fst (worldStep eng (1 / 60) ((t2 - t1) / 1000) 10 (world s) (bodies s)) \<and>
         bodies (stepPhysics eng t2 (stepPhysics eng t1 s)) =
           snd (worldStep eng (1 / 60) ((t2 - t1) / 1000) 10 (world s) (bodies s)) \<and>
         lastPhysTime (stepPhysics eng t2 (stepPhysics eng t1 s)) = t2"
    if "lastPhysTime s = 0" "t1 \<noteq> 0"
    using that stepPhysics_later [of "s\<lparr>lastPhysTime := t1\<rparr>" eng t2]
    by (simp add: c)
  show ?thesis using a b c d by simp
qed

text \<open>The pushed cube stays where it is in the first step, and is half a second further
  along its velocity after a second step 500 ms later.\<close>

theorem first_step_witness:
  "lastPhysTime scenePushed = 0 \<and> (1000::real) \<noteq> 0 \<and>
   map_option b_position (bodies (stepPhysics sampleEngine 1000 scenePushed) 0)
     = Some (vec 0 0 0) \<and>
   map_option b_position
      (bodies (stepPhysics sampleEngine 1500 (stepPhysics sampleEngine 1000 scenePushed)) 0)
     = Some (vec 0 5 0)"
proof -
  have h0: "lastPhysTime scenePushed = 0"
    by (simp add: scenePushed_fields)
  note th = first_step_records_clock_only [of initState scenePushed sampleEngine 1000 1500]
  from th h0 have s1: "bodies (stepPhysics sampleEngine 1000 scenePushed) = bodies scenePushed"
    by blast
  have nz: "(1000::real) \<noteq> 0"
    by simp
  from th h0 nz have s2:
    "bodies (stepPhysics sampleEngine 1500 (stepPhysics sampleEngine 1000 scenePushed)) =
       snd (worldStep sampleEngine (1 / 60) ((1500 - 1000) / 1000) 10 (world scenePushed)
              (bodies scenePushed))"
    by blast
  show ?thesis
    by (simp add: h0 s1 s2 sampleEngine_worldStep scenePushed_fields scenePushed_body vec_def)
qed

text \<open>
  C4. A step that finds the clock running calls the solver with the tick 1/60, the elapsed
  seconds since the last step and at most 10 sub-steps. The world and the body store
  after the call are the solver's result, untouched by the copy (so the velocities are
  the solver's), and every name that has a body and an object has the body's position
  and quaternion in its object afterwards.
\<close>

theorem later_step_advances_and_copies_back:
  assumes "lastPhysTime s \<noteq> 0"
  shows "world (stepPhysics eng now s) =
           fst (worldStep eng (1 / 60) ((now - lastPhysTime s) / 1000) 10 (world s) (bodies s)) \<and>
         bodies (stepPhysics eng now s) =
           snd (worldStep eng (1 / 60) ((now - lastPhysTime s) / 1000) 10 (world s) (bodies s)) \<and>
         lastPhysTime (stepPhysics eng now s) = now \<and>
         (\<forall>name i b m.
            map_of (physicsBodies s) name = Some i \<and>
            bodies (stepPhysics eng now s) i = Some b \<and>
            map_of (objects s) name = Some m \<longrightarrow>
            (\<exists>m'. map_of (objects (stepPhysics eng now s)) name = Some m' \<and>
                  o_position m' = b_position b \<and> o_quaternion m' = b_quaternion b))"
proof -
  have "\<exists>m'. map_of (objects (stepPhysics eng now s)) name = Some m' \<and>
              o_position m' = b_position b \<and> o_quaternion m' = b_quaternion b"
    if "map_of (physicsBodies s) name = Some i"
      and "bodies (stepPhysics eng now s) i = Some b"
      and "map_of (objects s) name = Some m" for name i b m
  proof -
    have "copied (stepPhysics eng now s) name b"
      using assms that stepPhysics_later(2) [OF assms, of eng now]
      by (intro stepPhysics_copies) simp_all
    then show ?thesis
      by (auto simp: copied_def split: option.splits)
  qed
  then show ?thesis
    using stepPhysics_later [OF assms, of eng now] by blast
qed

text \<open>The running scene, stepped 500 ms later: the body has moved, kept its velocity, and
  the cube has the body's position.\<close>

theorem later_step_witness:
  "lastPhysTime sceneRunning \<noteq> 0 \<and>
   map_option b_position (bodies (stepPhysics sampleEngine 1500 sceneRunning) 0)
     = Some (vec 0 5 0) \<and>
   map_option b_velocity (bodies (stepPhysics sampleEngine 1500 sceneRunning) 0)
     = Some (vec 0 10 0) \<and>
   map_option o_position (map_of (objects (stepPhysics sampleEngine 1500 sceneRunning)) ''A'')
     = Some (vec 0 5 0)"
proof -
  have run: "lastPhysTime sceneRunning \<noteq> 0"
    by (simp add: sceneRunning_fields)
  note th = later_step_advances_and_copies_back [OF run, of sampleEngine 1500]
  have bd: "bodies (stepPhysics sampleEngine 1500 sceneRunning) 0 =
     Some \<lparr>b_id = 0, b_name = ''A'', b_mass = 1, b_type = DYNAMIC,
           b_material = DefaultPhysMaterial,
           b_linearDamping = 1 / 100, b_angularDamping = 1 / 100,
           b_position = vec 0 5 0,
           b_quaternion = quat_identity,
           b_velocity = vec 0 10 0, b_angularVelocity = vec 0 0 0,
           b_shapes = [(BoxShape (vec (1 / 2) (1 / 2) (1 / 2)), vec 0 0 0, quat_identity)],
           b_awake = True\<rparr>"
    using th
    by (simp add: sceneRunning_fields scenePushed_fields scenePushed_body
        sampleEngine_worldStep vec_def)
  have pb: "map_of (physicsBodies sceneRunning) ''A'' = Some 0"
    by (simp add: sceneRunning_fields)
  obtain m where m: "map_of (objects sceneRunning) ''A'' = Some m"
    by (simp add: sceneRunning_fields sceneA_objects)
  from th pb bd m
  have "\<exists>m'. map_of (objects (stepPhysics sampleEngine 1500 sceneRunning)) ''A'' = Some m' \<and>
             o_position m' = vec 0 5 0"
    by fastforce
  then show ?thesis
    using run bd by auto
qed

section \<open>The round trip\<close>

text \<open>
  C5 at a black cube. The dump gives the cube the colour 0. The loader applies the colour of
  an element under \<open>if (item.color)\<close>, which is false for 0, so the cube it creates keeps
  the white shared material: loading the dump of the scene gives a white cube.
\<close>

theorem black_is_reloaded_white:
  "map (\<lambda>e. (e_name e, e_color e)) (getSceneJSON sceneBlack) = [(''A'', 0)] \<and>
   map (\<lambda>(k, ob). (k, colorOf ob))
     (objects (snd (loadSceneJSON sampleEngine (parseDump (getSceneJSON sceneBlack)) sceneBlack)))
     = [(''A'', 0xffffff)]"
proof -
  have "map (\<lambda>e. (e_name e, e_color e)) (getSceneJSON sceneBlack) = [(''A'', 0)]"
    by (simp add: sceneBlack_dump)
  then show ?thesis
    by (simp add: sceneBlack_reloaded colorOf_def materialColor_def)
qed

section \<open>A load that fails\<close>




section \<open>Unknown names\<close>



section \<open>The forward ray query\<close>




section \<open>The unit of the serialized rotation\<close>

text \<open>
  C9, as the code has it. The dump has one element per registry entry, in registry order,
  and its \<open>rot\<close> is the object's stored Euler triple, unconverted. The stored angles are
  radians: the \<open>setRot\<close> block, which takes degrees, stores its arguments times pi / 180.
\<close>

theorem dump_rotation_is_stored_euler:
  "map (\<lambda>e. (e_name e, e_rot e)) (getSceneJSON s) =
     map (\<lambda>(key, ob). (key, eulerAngles ob)) (objects s) \<and>
   (map_of (objects s) name \<noteq> None \<longrightarrow>
      map_option eulerAngles (map_of (objects (setRot eng name x y z s)) name) =
        Some (vec (x * pi / 180) (y * pi / 180) (z * pi / 180)))"
  using getSceneJSON_rot [of s] setRot_rotation [of s name _ eng x y z] by auto

text \<open>The cube turned by 180 degrees is dumped with the angle pi.\<close>

theorem dump_rotation_witness:
  "map_of (objects sceneCube) ''A'' \<noteq> None \<and>
   map (\<lambda>e. (e_name e, e_rot e)) (getSceneJSON sceneRot180) = [(''A'', vec pi 0 0)]"
proof -
  have a: "map_of (objects sceneCube) ''A'' \<noteq> None"
    by (simp add: sceneCube_objects)
  have o: "objects sceneRot180 = [(''A'', the (map_of (objects sceneRot180) ''A''))]"
    by (simp add: sceneRot180_def setRot_def sceneCube_objects sceneCube_physics
        updatePhysicsTransform_def)
  have "map_option eulerAngles (map_of (objects sceneRot180) ''A'') = Some (vec pi 0 0)"
    using dump_rotation_is_stored_euler [of sceneCube "''A''" sampleEngine 180 0 0] a
    by (simp add: sceneRot180_def)
  moreover have "map (\<lambda>e. (e_name e, e_rot e)) (getSceneJSON sceneRot180) =
     map (\<lambda>(key, ob). (key, eulerAngles ob)) (objects sceneRot180)"
    using dump_rotation_is_stored_euler [of sceneRot180 "''A''" sampleEngine 0 0 0] by blast
  ultimately show ?thesis
    using a o by (auto simp: map_option_case split: option.splits)
qed

text \<open>
  C9 as stated fails: the cube turned by 90 degrees has the Euler angles (90, 0, 0) in
  degrees, and its dump element carries (pi / 2, 0, 0).
\<close>

theorem dump_rotation_degrees_counterexample:
  "map eulerDegrees (map snd (objects sceneRot90)) = [vec 90 0 0] \<and>
   map e_rot (getSceneJSON sceneRot90) = [vec (pi / 2) 0 0] \<and>
   vec (pi / 2) 0 0 \<noteq> vec 90 0 0"
proof -
  have "pi / 2 \<noteq> (90::real)"
    using pi_less_4 by simp
  then show ?thesis
    by (simp add: sceneRot90_def setRot_def sceneCube_objects sceneCube_physics
        updatePhysicsTransform_def getSceneJSON_def entryOf_def eulerDegrees_def
        d2r_def r2d_def vec_def)
qed

section \<open>The distance reporter\<close>



end
